theory Spec2Isabelle
  imports Main "HOL-Library.Char_ord" "HOL-Library.List_Lexorder"
    "HOL-Library.Product_Lexorder"
begin

section \<open>Python strings\<close>

text \<open>
  Strings are ASCII strings, one \<^typ>\<open>char\<close> per code point. Python compares two strings
  with \<open><\<close> lexicographically by code point: that is the order \<open><\<close> of
  \<^typ>\<open>string\<close> here (the lexicographic order of lists over the order of characters by
  code). \<open>str.isspace\<close>, \<open>str.strip\<close> and the regular expression class \<open>\s\<close> agree on
  ASCII: the codes 9 to 13 and 28 to 32.
\<close>

definition is_space :: "char \<Rightarrow> bool" where
  "is_space c = (let n = (of_char c :: nat) in (9 \<le> n \<and> n \<le> 13) \<or> (28 \<le> n \<and> n \<le> 32))"

definition is_digit :: "char \<Rightarrow> bool" where
  "is_digit c = (c \<in> set ''0123456789'')"

definition is_alpha :: "char \<Rightarrow> bool" where
  "is_alpha c = (c \<in> set ''ABCDEFGHIJKLMNOPQRSTUVWXYZabcdefghijklmnopqrstuvwxyz'')"

definition digit_val :: "char \<Rightarrow> nat" where
  "digit_val c = of_char c - 48"

text \<open>\<open>int(token)\<close> on a string of decimal digits.\<close>

definition int_of_digits :: "string \<Rightarrow> nat" where
  "int_of_digits s = foldl (\<lambda>acc c. 10 * acc + digit_val c) 0 s"

text \<open>\<open>str.isdigit()\<close>: not empty, and every character a digit.\<close>

definition isdigit :: "string \<Rightarrow> bool" where
  "isdigit s = (s \<noteq> [] \<and> list_all is_digit s)"

definition strip :: "string \<Rightarrow> string" where
  "strip s = rev (dropWhile is_space (rev (dropWhile is_space s)))"

text \<open>\<open>str.lower()\<close> on ASCII: each of the 26 capital letters becomes its small letter.\<close>

definition lower_char :: "char \<Rightarrow> char" where
  "lower_char c =
     (case map_of (zip ''ABCDEFGHIJKLMNOPQRSTUVWXYZ'' ''abcdefghijklmnopqrstuvwxyz'') c of
        None \<Rightarrow> c
      | Some l \<Rightarrow> l)"

definition lower :: "string \<Rightarrow> string" where
  "lower s = map lower_char s"

text \<open>
  \<open>s.split(",")\<close> and \<open>re.split(r"[._-]", s)\<close>: the pieces between the separator
  characters, empty pieces included; the result is never the empty list.
\<close>

fun split_where :: "(char \<Rightarrow> bool) \<Rightarrow> string \<Rightarrow> string list" where
  "split_where sep [] = [[]]"
| "split_where sep (c # cs) =
     (if sep c then [] # split_where sep cs
      else (case split_where sep cs of
              [] \<Rightarrow> [[c]]
            | piece # pieces \<Rightarrow> (c # piece) # pieces))"

fun strip_prefix :: "string \<Rightarrow> string \<Rightarrow> string option" where
  "strip_prefix [] s = Some s"
| "strip_prefix (p # ps) [] = None"
| "strip_prefix (p # ps) (c # cs) = (if p = c then strip_prefix ps cs else None)"

text \<open>
  \<open>sorted(xs)\<close> and \<open>xs.sort()\<close> are stable and call only \<open><\<close>: insertion sort
  with the comparison \<open>lt\<close>, an element going in front of the first one that is not below it.
  With \<open>reverse=True\<close> Python reverses the list, sorts it and reverses the result, which
  keeps equal elements in their first order.
\<close>

fun insort_lt :: "('a \<Rightarrow> 'a \<Rightarrow> bool) \<Rightarrow> 'a \<Rightarrow> 'a list \<Rightarrow> 'a list" where
  "insort_lt lt x [] = [x]"
| "insort_lt lt x (y # ys) = (if lt y x then y # insort_lt lt x ys else x # y # ys)"

fun py_sorted :: "('a \<Rightarrow> 'a \<Rightarrow> bool) \<Rightarrow> 'a list \<Rightarrow> 'a list" where
  "py_sorted lt [] = []"
| "py_sorted lt (x # xs) = insort_lt lt x (py_sorted lt xs)"

definition py_sorted_reverse :: "('a \<Rightarrow> 'a \<Rightarrow> bool) \<Rightarrow> 'a list \<Rightarrow> 'a list" where
  "py_sorted_reverse lt xs = rev (py_sorted lt (rev xs))"

text \<open>
  Truth of an \<open>Optional[str]\<close>: \<open>None\<close> and the empty string are false. \<open>a or b\<close>
  is \<open>a\<close> when \<open>a\<close> is true, else \<open>b\<close>.
\<close>

definition truthy :: "string option \<Rightarrow> bool" where
  "truthy a = (case a of None \<Rightarrow> False | Some s \<Rightarrow> s \<noteq> [])"

definition py_or :: "string option \<Rightarrow> string option \<Rightarrow> string option" where
  "py_or a b = (if truthy a then a else b)"

section \<open>rversion.py: the version algebra\<close>

text \<open>
  \<open>_tokenize\<close>: strip, split on \<open>.\<close>, \<open>_\<close> and \<open>-\<close>, drop the empty chunks;
  \<open>("0",)\<close> when nothing is left.
\<close>

definition is_separator :: "char \<Rightarrow> bool" where
  "is_separator c = (c \<in> set ''._-'')"

definition tokenize :: "string \<Rightarrow> string list" where
  "tokenize v =
     (let v' = strip v in
      if v' = [] then [''0'']
      else (let parts = filter (\<lambda>chunk. chunk \<noteq> []) (split_where is_separator v') in
            if parts = [] then [''0''] else parts))"

text \<open>
  One component of \<open>RVersion.__init__\<close>: a token of digits is \<open>(int(token), "")\<close>;
  a token matching \<open>(\d+)([A-Za-z].*)\<close> at its start is the number and the rest (the
  dot of the pattern stops at a line feed); any other token is \<open>(0, token)\<close>.
\<close>

definition component :: "string \<Rightarrow> nat \<times> string" where
  "component token =
     (if isdigit token then (int_of_digits token, [])
      else (let ds = takeWhile is_digit token; rest = dropWhile is_digit token in
            if ds \<noteq> [] \<and> rest \<noteq> [] \<and> is_alpha (hd rest)
            then (int_of_digits ds, takeWhile (\<lambda>c. c \<noteq> CHR 0x0A) rest)
            else (0, token)))"

record rversion =
  raw :: string
  components :: "(nat \<times> string) list"

definition RVersion :: "string \<Rightarrow> rversion" where
  "RVersion s = \<lparr>raw = s, components = map component (tokenize s)\<rparr>"

text \<open>
  \<open>RVersion._compare\<close>: the loop over \<open>zip_longest(..., fillvalue=(0, ""))\<close>.
  \<open>compare_step\<close> is the loop body on one pair, \<open>rest\<close> the outcome of the pairs after
  it.
\<close>

definition compare_step :: "nat \<times> string \<Rightarrow> nat \<times> string \<Rightarrow> int \<Rightarrow> int" where
  "compare_step l r rest =
     (if fst l \<noteq> fst r then (if fst l < fst r then - 1 else 1)
      else if snd l \<noteq> snd r then (if snd l < snd r then - 1 else 1)
      else rest)"

fun compare_components :: "(nat \<times> string) list \<Rightarrow> (nat \<times> string) list \<Rightarrow> int" where
  "compare_components [] [] = 0"
| "compare_components (l # ls) [] = compare_step l (0, []) (compare_components ls [])"
| "compare_components [] (r # rs) = compare_step (0, []) r (compare_components [] rs)"
| "compare_components (l # ls) (r # rs) = compare_step l r (compare_components ls rs)"

definition rv_compare :: "rversion \<Rightarrow> rversion \<Rightarrow> int" where
  "rv_compare a b = compare_components (components a) (components b)"

text \<open>\<open>RVersion.__lt__\<close> and \<open>RVersion.__eq__\<close> (equality of the component tuples).\<close>

definition rv_lt :: "rversion \<Rightarrow> rversion \<Rightarrow> bool" where
  "rv_lt a b = (rv_compare a b < 0)"

definition rv_eq :: "rversion \<Rightarrow> rversion \<Rightarrow> bool" where
  "rv_eq a b = (components a = components b)"

definition compare_versions :: "string \<Rightarrow> string \<Rightarrow> int" where
  "compare_versions a b = rv_compare (RVersion a) (RVersion b)"

text \<open>
  The comparison as the specification words it: both component tuples padded with
  \<open>(0, "")\<close> to the longer length, then compared lexicographically, a component by its
  number and then by its suffix.
\<close>

definition pad_components :: "nat \<Rightarrow> (nat \<times> string) list \<Rightarrow> (nat \<times> string) list" where
  "pad_components n cs = cs @ replicate (n - length cs) (0, [])"

definition spec_compare :: "string \<Rightarrow> string \<Rightarrow> int" where
  "spec_compare a b =
     (let ca = components (RVersion a); cb = components (RVersion b);
          n = max (length ca) (length cb);
          pa = pad_components n ca; pb = pad_components n cb
      in if pa < pb then - 1 else if pa = pb then 0 else 1)"

text \<open>
  A \<open>VersionConstraint\<close>. Every constraint of the program is built by
  \<open>parse_constraint_expression\<close>, whose pattern admits the seven operators below (in the
  order of its alternation), so the operator is a datatype and the \<open>ValueError\<close> of
  \<open>is_satisfied_by\<close> for any other operator has no input.
\<close>

datatype comparator = Ge | Le | EqEq | Eq | Ne | Gt | Lt

fun operator_text :: "comparator \<Rightarrow> string" where
  "operator_text Ge = ''>=''"
| "operator_text Le = ''<=''"
| "operator_text EqEq = ''==''"
| "operator_text Eq = ''=''"
| "operator_text Ne = ''!=''"
| "operator_text Gt = ''>''"
| "operator_text Lt = ''<''"

record version_constraint =
  vc_operator :: comparator
  vc_version :: string

definition is_satisfied_by :: "version_constraint \<Rightarrow> string \<Rightarrow> bool" where
  "is_satisfied_by c candidate =
     (let cmp = compare_versions candidate (vc_version c) in
      case vc_operator c of
        Gt \<Rightarrow> cmp > 0
      | Ge \<Rightarrow> cmp \<ge> 0
      | Lt \<Rightarrow> cmp < 0
      | Le \<Rightarrow> cmp \<le> 0
      | EqEq \<Rightarrow> cmp = 0
      | Eq \<Rightarrow> cmp = 0
      | Ne \<Rightarrow> cmp \<noteq> 0)"

definition satisfies_all :: "string \<Rightarrow> version_constraint list \<Rightarrow> bool" where
  "satisfies_all candidate cs = list_all (\<lambda>c. is_satisfied_by c candidate) cs"

text \<open>
  \<open>_CONSTRAINT_TOKEN_RE = (>=|<=|==|=|!=|>|<)\s*([0-9A-Za-z_.-]+)\<close>.
  \<open>match_operator\<close> tries one alternative at the head of the string: the operator, then
  the white space, then the longest token, which must not be empty. \<open>match_here\<close> tries
  the alternatives in their order; \<open>regex_search\<close> is \<open>search\<close>, the match at the
  leftmost position that has one.
\<close>

definition is_version_char :: "char \<Rightarrow> bool" where
  "is_version_char c = (is_digit c \<or> is_alpha c \<or> c \<in> set ''_.-'')"

definition match_operator :: "comparator \<Rightarrow> string \<Rightarrow> (comparator \<times> string) option" where
  "match_operator opr s =
     (case strip_prefix (operator_text opr) s of
        None \<Rightarrow> None
      | Some rest \<Rightarrow>
          (let token = takeWhile is_version_char (dropWhile is_space rest) in
           if token = [] then None else Some (opr, token)))"

fun first_match :: "comparator list \<Rightarrow> string \<Rightarrow> (comparator \<times> string) option" where
  "first_match [] s = None"
| "first_match (opr # oprs) s =
     (case match_operator opr s of Some m \<Rightarrow> Some m | None \<Rightarrow> first_match oprs s)"

definition match_here :: "string \<Rightarrow> (comparator \<times> string) option" where
  "match_here s = first_match [Ge, Le, EqEq, Eq, Ne, Gt, Lt] s"

fun regex_search :: "string \<Rightarrow> (comparator \<times> string) option" where
  "regex_search [] = match_here []"
| "regex_search (c # cs) =
     (case match_here (c # cs) of Some m \<Rightarrow> Some m | None \<Rightarrow> regex_search cs)"

fun parse_fragments :: "string list \<Rightarrow> version_constraint list" where
  "parse_fragments [] = []"
| "parse_fragments (f # fs) =
     (let fragment = strip f in
      if fragment = [] then parse_fragments fs
      else (case regex_search fragment of
              None \<Rightarrow> parse_fragments fs
            | Some (opr, ver) \<Rightarrow> \<lparr>vc_operator = opr, vc_version = ver\<rparr> # parse_fragments fs))"

definition parse_constraint_expression :: "string \<Rightarrow> version_constraint list" where
  "parse_constraint_expression expr = parse_fragments (split_where (\<lambda>c. c = CHR '','') expr)"

text \<open>
  The parser as the specification words it: split on commas; in each fragment take the
  first position at which one of the operators, then a version token, stands; a fragment
  with no such position gives nothing.
\<close>

definition spec_first_occurrence :: "string \<Rightarrow> (comparator \<times> string) option" where
  "spec_first_occurrence fragment =
     (case filter (\<lambda>i. match_here (drop i fragment) \<noteq> None) [0..<length fragment] of
        [] \<Rightarrow> None
      | i # _ \<Rightarrow> match_here (drop i fragment))"

definition spec_parse_constraint_list :: "string \<Rightarrow> (string \<times> string) list" where
  "spec_parse_constraint_list expr =
     map (\<lambda>(opr, ver). (operator_text opr, ver))
       (List.map_filter spec_first_occurrence (split_where (\<lambda>c. c = CHR '','') expr))"

section \<open>models.py and constants.py\<close>

record dependency =
  dep_name :: string
  dep_constraints :: "version_constraint list"
  dep_kind :: string
  dep_optional :: bool
  dep_source_hint :: "string option"

record package_version =
  pv_name :: string
  pv_version :: string
  pv_repo :: string
  pv_r_min :: "string option"
  pv_dependencies :: "dependency list"
  pv_bioc_release :: "string option"
  pv_source_url :: "string option"
  pv_metadata :: "(string \<times> string) list"
  pv_published :: "string option"

record package_selection =
  sel_package :: string
  sel_version :: string
  sel_repo :: string
  sel_source_url :: "string option"
  sel_dependencies :: "dependency list"
  sel_r_min :: "string option"
  sel_bioc_release :: "string option"

record resolution_plan =
  plan_r_version :: string
  plan_selections :: "string \<rightharpoonup> package_selection"
  plan_notes :: "string list"

record conflict =
  cf_package :: string
  cf_required_by :: "string list"
  cf_message :: string
  cf_candidates_considered :: "string list"

definition BASE_R_PACKAGES :: "string list" where
  "BASE_R_PACKAGES =
     [''base'', ''compiler'', ''datasets'', ''graphics'', ''grDevices'', ''grid'', ''methods'',
      ''parallel'', ''splines'', ''stats'', ''stats4'', ''tcltk'', ''tools'', ''utils'']"

definition SUPPORTED_R_VERSIONS :: "string list" where
  "SUPPORTED_R_VERSIONS =
     [''3.6.0'', ''3.6.3'', ''4.0.0'', ''4.0.2'', ''4.0.5'', ''4.1.0'', ''4.1.2'', ''4.1.3'',
      ''4.2.0'', ''4.2.1'', ''4.2.2'', ''4.2.3'', ''4.3.0'', ''4.3.1'', ''4.3.2'', ''4.3.3'',
      ''4.4.0'', ''4.4.1'']"

definition BIOCONDUCTOR_R_MATRIX :: "(string \<times> string) list" where
  "BIOCONDUCTOR_R_MATRIX =
     [(''3.12'', ''4.0''), (''3.13'', ''4.1''), (''3.14'', ''4.1''), (''3.15'', ''4.2''),
      (''3.16'', ''4.2''), (''3.17'', ''4.3''), (''3.18'', ''4.3''), (''3.19'', ''4.4'')]"

text \<open>
  A Python \<open>dict\<close> whose order of keys matters is an association list with distinct
  keys; \<open>d[k] = v\<close> replaces the value of a key in place or appends the new key.
\<close>

fun dict_set :: "'k \<Rightarrow> 'v \<Rightarrow> ('k \<times> 'v) list \<Rightarrow> ('k \<times> 'v) list" where
  "dict_set k v [] = [(k, v)]"
| "dict_set k v ((k', v') # kvs) = (if k' = k then (k, v) # kvs else (k', v') # dict_set k v kvs)"

section \<open>metadata.py: the normalizers\<close>

text \<open>
  \<open>_DEP_PATTERN = ^(?P<name>[A-Za-z0-9._]+)(?:\s*\((?P<constraints>[^)]+)\))?$\<close>,
  matched at the start of the string. The result is the name and the text between the
  parentheses, when there is one. \<open>$\<close> stands at the end of the string or before a line
  feed that ends it.
\<close>

definition is_name_char :: "char \<Rightarrow> bool" where
  "is_name_char c = (is_digit c \<or> is_alpha c \<or> c \<in> set ''._'')"

definition at_end :: "string \<Rightarrow> bool" where
  "at_end s = (s = [] \<or> s = [CHR 0x0A])"

definition dep_pattern_match :: "string \<Rightarrow> (string \<times> string option) option" where
  "dep_pattern_match s =
     (let name = takeWhile is_name_char s; rest = dropWhile is_name_char s in
      if name = [] then None
      else (case dropWhile is_space rest of
              [] \<Rightarrow> (if at_end rest then Some (name, None) else None)
            | c # after_paren \<Rightarrow>
                (let inner = takeWhile (\<lambda>x. x \<noteq> CHR '')'') after_paren;
                     closing = dropWhile (\<lambda>x. x \<noteq> CHR '')'') after_paren
                 in if c = CHR ''('' \<and> inner \<noteq> [] \<and> closing \<noteq> [] \<and> at_end (tl closing)
                    then Some (name, Some inner)
                    else if at_end rest then Some (name, None) else None)))"

definition parse_dependency_entry :: "string \<Rightarrow> string \<times> version_constraint list" where
  "parse_dependency_entry entry =
     (case dep_pattern_match (strip entry) of
        None \<Rightarrow> (strip entry, [])
      | Some (name, constraints) \<Rightarrow>
          (name, parse_constraint_expression (case constraints of None \<Rightarrow> [] | Some e \<Rightarrow> e)))"

text \<open>
  A dependency section of a payload: absent, a string, a mapping from names to constraint
  expressions, or a list whose entries are strings or \<open>None\<close>. (The repositories send
  strings there; \<open>str()\<close> of any other value is not modelled.)
\<close>

datatype dep_section =
    SecNone
  | SecStr string
  | SecDict "(string \<times> string) list"
  | SecList "string option list"

fun parse_entries :: "string option list \<Rightarrow> (string \<times> version_constraint list) list" where
  "parse_entries [] = []"
| "parse_entries (None # entries) = parse_entries entries"
| "parse_entries (Some r # entries) = parse_dependency_entry r # parse_entries entries"

fun parse_dep_section :: "dep_section \<Rightarrow> (string \<times> version_constraint list) list" where
  "parse_dep_section SecNone = []"
| "parse_dep_section (SecDict d) = map (\<lambda>(name, spec). (name, parse_constraint_expression spec)) d"
| "parse_dep_section (SecStr s) =
     (if s = [] then [] else parse_entries (map Some (split_where (\<lambda>c. c = CHR '','') s)))"
| "parse_dep_section (SecList entries) = parse_entries entries"

text \<open>
  \<open>_split_r_requirement\<close>. \<open>last_lower_bound\<close> is the inner loop over the constraints
  of one dependency named \<open>R\<close>: \<open>candidate\<close> is overwritten by each \<open>>=\<close> or
  \<open>>\<close> constraint. \<open>split_r_loop\<close> is the outer loop, with the two variables
  \<open>r_requirement\<close> and \<open>remaining\<close>.
\<close>

fun last_lower_bound :: "string option \<Rightarrow> version_constraint list \<Rightarrow> string option" where
  "last_lower_bound candidate [] = candidate"
| "last_lower_bound candidate (c # cs) =
     last_lower_bound
       (if vc_operator c = Ge \<or> vc_operator c = Gt then Some (vc_version c) else candidate) cs"

definition update_r_requirement :: "string option \<Rightarrow> string option \<Rightarrow> string option" where
  "update_r_requirement candidate r_requirement =
     (case candidate of
        None \<Rightarrow> r_requirement
      | Some cand \<Rightarrow>
          if cand = [] then r_requirement
          else (case r_requirement of
                  None \<Rightarrow> Some cand
                | Some req \<Rightarrow>
                    if req = [] \<or> compare_versions cand req > 0 then Some cand
                    else Some req))"

fun split_r_loop ::
  "dependency list \<Rightarrow> string option \<Rightarrow> dependency list \<Rightarrow> string option \<times> dependency list" where
  "split_r_loop [] r_requirement remaining = (r_requirement, remaining)"
| "split_r_loop (dep # deps) r_requirement remaining =
     (if lower (dep_name dep) = ''r''
      then split_r_loop deps
             (update_r_requirement (last_lower_bound None (dep_constraints dep)) r_requirement)
             remaining
      else split_r_loop deps r_requirement (remaining @ [dep]))"

definition split_r_requirement :: "dependency list \<Rightarrow> string option \<times> dependency list" where
  "split_r_requirement dependencies = split_r_loop dependencies None []"

text \<open>
  \<open>_build_dependencies\<close>. \<open>get\<close> is \<open>payload.get\<close> on the four section names. The
  loop runs over \<open>Depends\<close>, \<open>Imports\<close>, \<open>LinkingTo\<close> and \<open>Suggests\<close> in this
  order.
\<close>

definition section_dependencies :: "dep_section \<Rightarrow> string \<Rightarrow> bool \<Rightarrow> dependency list" where
  "section_dependencies field kind optional =
     map (\<lambda>(name, constraints).
            \<lparr>dep_name = name, dep_constraints = constraints, dep_kind = kind,
             dep_optional = optional, dep_source_hint = None\<rparr>)
         (parse_dep_section field)"

fun collect_dependencies :: "(dep_section \<times> string \<times> bool) list \<Rightarrow> bool \<Rightarrow> dependency list" where
  "collect_dependencies [] include_optional = []"
| "collect_dependencies ((field, kind, optional) # todo) include_optional =
     (if optional \<and> \<not> include_optional then collect_dependencies todo include_optional
      else section_dependencies field kind optional @ collect_dependencies todo include_optional)"

definition build_dependencies ::
  "(string \<Rightarrow> dep_section) \<Rightarrow> bool \<Rightarrow> dependency list \<times> string option" where
  "build_dependencies get include_optional =
     (let dependencies =
            collect_dependencies
              [(get ''Depends'', ''Depends'', False),
               (get ''Imports'', ''Imports'', False),
               (get ''LinkingTo'', ''LinkingTo'', False),
               (get ''Suggests'', ''Suggests'', True)] include_optional;
          (r_min, non_r_dependencies) = split_r_requirement dependencies;
          filtered = filter (\<lambda>dep. lower (dep_name dep) \<notin> set BASE_R_PACKAGES) non_r_dependencies
      in (filtered, r_min))"

text \<open>
  A payload of CRAN or Bioconductor: the four sections and the scalar fields the
  normalizers read (absent, or a string).
\<close>

record payload =
  pl_depends :: dep_section
  pl_imports :: dep_section
  pl_linking_to :: dep_section
  pl_suggests :: dep_section
  pl_md5sum :: "string option"
  pl_needs_compilation :: "string option"
  pl_repository :: "string option"
  pl_date_publication :: "string option"
  pl_version :: "string option"
  pl_git_url :: "string option"
  pl_git_last_commit_date :: "string option"
  pl_category :: "string option"
  pl_git_branch :: "string option"

definition payload_get :: "payload \<Rightarrow> string \<Rightarrow> dep_section" where
  "payload_get p key =
     (if key = ''Depends'' then pl_depends p
      else if key = ''Imports'' then pl_imports p
      else if key = ''LinkingTo'' then pl_linking_to p
      else if key = ''Suggests'' then pl_suggests p
      else SecNone)"

definition metadata_entry :: "string \<Rightarrow> string option \<Rightarrow> (string \<times> string) list" where
  "metadata_entry field v = (case v of None \<Rightarrow> [] | Some s \<Rightarrow> [(field, s)])"

definition normalize_cran_payload :: "string \<Rightarrow> payload \<Rightarrow> string \<Rightarrow> package_version" where
  "normalize_cran_payload package p ver =
     (let (dependencies, r_min) = build_dependencies (payload_get p) False in
      \<lparr>pv_name = package, pv_version = ver, pv_repo = ''CRAN'', pv_r_min = r_min,
       pv_dependencies = dependencies, pv_bioc_release = None,
       pv_source_url = Some (''https://cran.r-project.org/package='' @ package),
       pv_metadata =
         metadata_entry ''MD5sum'' (pl_md5sum p) @
         metadata_entry ''NeedsCompilation'' (pl_needs_compilation p) @
         metadata_entry ''Repository'' (pl_repository p),
       pv_published = pl_date_publication p\<rparr>)"

definition str_or_default :: "string option \<Rightarrow> string \<Rightarrow> string" where
  "str_or_default v d = (case v of None \<Rightarrow> d | Some s \<Rightarrow> s)"

definition normalize_bioc_payload :: "string \<Rightarrow> payload \<Rightarrow> string \<Rightarrow> package_version" where
  "normalize_bioc_payload package p release =
     (let (dependencies, r_min) = build_dependencies (payload_get p) False in
      \<lparr>pv_name = package, pv_version = str_or_default (pl_version p) ''None'',
       pv_repo = ''Bioconductor'', pv_r_min = r_min,
       pv_dependencies = dependencies, pv_bioc_release = Some release,
       pv_source_url =
         py_or (pl_git_url p)
           (Some (''https://bioconductor.org/packages/'' @ release @ ''/bioc/html/'' @ package @ ''.html'')),
       pv_metadata =
         [(''category'', str_or_default (pl_category p) ''bioc''),
          (''git_branch'', str_or_default (pl_git_branch p) [])],
       pv_published = py_or (pl_date_publication p) (pl_git_last_commit_date p)\<rparr>)"

text \<open>
  The two lookups in the table of Bioconductor releases. \<open>latest_bioconductor_release\<close>
  is \<open>sorted(BIOCONDUCTOR_R_MATRIX.keys())[-1]\<close>, \<open>None\<close> for an empty table; the keys
  are strings, so \<open>sorted\<close> compares them as strings. \<open>latest_release_of\<close> is the same
  computation on any table.
\<close>

definition bioconductor_r_version :: "string \<Rightarrow> string option" where
  "bioconductor_r_version release = map_of BIOCONDUCTOR_R_MATRIX release"

definition latest_release_of :: "(string \<times> string) list \<Rightarrow> string option" where
  "latest_release_of table =
     (if table = [] then None else Some (last (py_sorted (\<lambda>a b. a < b) (map fst table))))"

definition latest_bioconductor_release :: "string option" where
  "latest_bioconductor_release = latest_release_of BIOCONDUCTOR_R_MATRIX"

section \<open>exceptions.py and the answers of the metadata provider\<close>

datatype metadata_fetch_error = MetadataFetchError string

record resolution_error =
  err_package :: string
  err_required_by :: "string list"
  err_message :: string
  err_candidates :: "string list option"

text \<open>
  The resolver asks the provider through \<open>get_versions\<close>. Once a key is loaded the
  provider answers from its memo, so during a resolution its answers are a function of
  the key; the resolver is modelled over these answers: \<open>md_cran package\<close>,
  \<open>md_bioc package release\<close> and \<open>md_github owner repo ref token\<close> are what
  \<open>get_cran_versions\<close>, \<open>get_bioconductor_versions\<close> and \<open>get_github_version\<close>
  return or raise. \<open>md_get_versions\<close> is the dispatch of \<open>get_versions\<close>.
\<close>

record metadata_answers =
  md_cran :: "string \<Rightarrow> metadata_fetch_error + package_version list"
  md_bioc :: "string \<Rightarrow> string \<Rightarrow> metadata_fetch_error + package_version list"
  md_github ::
    "string \<Rightarrow> string \<Rightarrow> string option \<Rightarrow> string option \<Rightarrow> metadata_fetch_error + package_version"

definition md_get_versions ::
  "metadata_answers \<Rightarrow> string \<Rightarrow> string \<Rightarrow> string option \<Rightarrow> string option \<Rightarrow> string option
   \<Rightarrow> metadata_fetch_error + package_version list" where
  "md_get_versions md package source bioc_release github_ref github_token =
     (let src = lower source in
      if src = ''cran'' then md_cran md package
      else if src = ''bioc'' \<or> src = ''bioconductor'' then
        (case bioc_release of
           None \<Rightarrow> Inl (MetadataFetchError
                     ''Bioconductor release must be specified for Bioconductor packages'')
         | Some release \<Rightarrow>
             if release = [] then Inl (MetadataFetchError
                     ''Bioconductor release must be specified for Bioconductor packages'')
             else md_bioc md package release)
      else if src = ''github'' then
        (if CHR ''/'' \<notin> set package
         then Inl (MetadataFetchError ''GitHub packages must be provided as owner/repo'')
         else (case md_github md (takeWhile (\<lambda>c. c \<noteq> CHR ''/'') package)
                      (tl (dropWhile (\<lambda>c. c \<noteq> CHR ''/'') package)) github_ref github_token of
                 Inl e \<Rightarrow> Inl e
               | Inr v \<Rightarrow> Inr [v]))
      else Inl (MetadataFetchError (''Unsupported source: '' @ src)))"

section \<open>solver.py: the resolver\<close>

record target_context =
  tc_identifier :: string
  tc_package :: string
  tc_source :: string
  tc_constraints :: "version_constraint list"
  tc_bioc_release :: "string option"
  tc_github_ref :: "string option"
  tc_github_token :: "string option"
  tc_github_slug :: "string option"

record package_request =
  rq_package :: string
  rq_source :: "string option"
  rq_constraints :: "version_constraint list"
  rq_required_by :: "string list"
  rq_bioc_release :: "string option"
  rq_github_ref :: "string option"
  rq_github_token :: "string option"
  rq_github_slug :: "string option"

record resolution_state =
  st_candidate_r :: string
  st_include_optional :: bool
  st_prefer_bioc_release :: "string option"
  st_assignments :: "string \<rightharpoonup> package_selection"
  st_constraints :: "string \<rightharpoonup> version_constraint list"
  st_visiting :: "string set"
  st_failure_traces :: "conflict list"

record environment_solver =
  es_metadata :: metadata_answers
  es_include_optional :: bool
  es_prefer_bioc_release :: "string option"

text \<open>\<open>_load_versions_for_source\<close>.\<close>

definition load_versions_for_source ::
  "environment_solver \<Rightarrow> package_request \<Rightarrow> string
   \<Rightarrow> metadata_fetch_error + package_version list" where
  "load_versions_for_source solver request source =
     (let src = lower source in
      if src = ''cran'' then
        md_get_versions (es_metadata solver) (rq_package request) ''cran'' None None None
      else if src = ''bioc'' \<or> src = ''bioconductor'' then
        (let release = py_or (rq_bioc_release request)
                         (py_or (es_prefer_bioc_release solver) latest_bioconductor_release) in
         if \<not> truthy release
         then Inl (MetadataFetchError ''No Bioconductor release available'')
         else md_get_versions (es_metadata solver) (rq_package request) ''bioc'' release None None)
      else if src = ''github'' then
        md_get_versions (es_metadata solver)
          (if truthy (rq_github_slug request) then str_or_default (rq_github_slug request) []
           else rq_package request)
          ''github'' None (rq_github_ref request) (rq_github_token request)
      else Inl (MetadataFetchError (''Unsupported source '' @ src)))"

text \<open>
  \<open>_candidate_versions\<close>. \<open>source_order_of\<close> builds \<open>source_order\<close>;
  \<open>keep_versions\<close> is the inner loop over the versions of one source, and
  \<open>gather_versions\<close> the loop over the sources, both with the variables \<open>seen\<close> and
  \<open>results\<close>; \<open>source_priority\<close> is the local function of that name.
\<close>

definition r_min_exceeds :: "string \<Rightarrow> string option \<Rightarrow> bool" where
  "r_min_exceeds candidate_r r_min =
     (case r_min of
        None \<Rightarrow> False
      | Some m \<Rightarrow> m \<noteq> [] \<and> compare_versions candidate_r m < 0)"

definition source_order_of :: "package_request \<Rightarrow> string list" where
  "source_order_of request =
     (let order0 = (if truthy (rq_source request) then [str_or_default (rq_source request) []] else []);
          order1 = (if ''cran'' \<in> set order0 then order0 else order0 @ [''cran''])
      in if ''bioc'' \<in> set order1 then order1 else order1 @ [''bioc''])"

fun keep_versions ::
  "string \<Rightarrow> version_constraint list \<Rightarrow> package_version list
   \<Rightarrow> (string \<times> string) list \<times> package_version list
   \<Rightarrow> (string \<times> string) list \<times> package_version list" where
  "keep_versions candidate_r constraints [] (seen, results) = (seen, results)"
| "keep_versions candidate_r constraints (v # vs) (seen, results) =
     (if r_min_exceeds candidate_r (pv_r_min v)
      then keep_versions candidate_r constraints vs (seen, results)
      else if constraints \<noteq> [] \<and> \<not> satisfies_all (pv_version v) constraints
      then keep_versions candidate_r constraints vs (seen, results)
      else if (pv_repo v, pv_version v) \<in> set seen
      then keep_versions candidate_r constraints vs (seen, results)
      else keep_versions candidate_r constraints vs
             (seen @ [(pv_repo v, pv_version v)], results @ [v]))"

fun gather_versions ::
  "environment_solver \<Rightarrow> package_request \<Rightarrow> string \<Rightarrow> version_constraint list \<Rightarrow> string list
   \<Rightarrow> (string \<times> string) list \<times> package_version list
   \<Rightarrow> (string \<times> string) list \<times> package_version list" where
  "gather_versions solver request candidate_r constraints [] acc = acc"
| "gather_versions solver request candidate_r constraints (source # sources) acc =
     (case load_versions_for_source solver request source of
        Inl e \<Rightarrow> gather_versions solver request candidate_r constraints sources acc
      | Inr versions \<Rightarrow>
          gather_versions solver request candidate_r constraints sources
            (keep_versions candidate_r constraints versions acc))"

fun source_priority_from :: "nat \<Rightarrow> string list \<Rightarrow> string \<Rightarrow> nat" where
  "source_priority_from idx [] repo = idx"
| "source_priority_from idx (src # srcs) repo =
     (if take (length (take 4 src)) repo = take 4 src then idx
      else source_priority_from (Suc idx) srcs repo)"

text \<open>The order of two records under the sort key \<open>RVersion(item.version)\<close>.\<close>

definition version_key_lt :: "package_version \<Rightarrow> package_version \<Rightarrow> bool" where
  "version_key_lt a b = rv_lt (RVersion (pv_version a)) (RVersion (pv_version b))"

definition source_priority :: "string list \<Rightarrow> package_version \<Rightarrow> nat" where
  "source_priority source_order v = source_priority_from 0 source_order (lower (pv_repo v))"

definition candidate_versions ::
  "environment_solver \<Rightarrow> package_request \<Rightarrow> resolution_state \<Rightarrow> version_constraint list
   \<Rightarrow> package_version list" where
  "candidate_versions solver request st constraints =
     (let source_order = source_order_of request;
          results = snd (gather_versions solver request (st_candidate_r st) constraints
                           source_order ([], []));
          by_version = py_sorted_reverse version_key_lt results
      in py_sorted (\<lambda>a b. source_priority source_order a < source_priority source_order b)
           by_version)"

text \<open>\<open>_infer_source\<close>, \<open>_infer_bioc_release\<close> and the request for a dependency.\<close>

definition infer_source :: "package_selection \<Rightarrow> dependency \<Rightarrow> string option" where
  "infer_source parent d =
     (if lower (sel_repo parent) = ''bioconductor'' then Some ''bioc''
      else if lower (sel_repo parent) = ''github'' then None
      else None)"

definition infer_bioc_release ::
  "environment_solver \<Rightarrow> package_selection \<Rightarrow> dependency \<Rightarrow> string option \<Rightarrow> string option" where
  "infer_bioc_release solver parent d parent_release =
     (if lower (sel_repo parent) = ''bioconductor''
      then py_or (sel_bioc_release parent) (py_or parent_release (es_prefer_bioc_release solver))
      else None)"

definition child_request ::
  "environment_solver \<Rightarrow> package_selection \<Rightarrow> package_request \<Rightarrow> dependency \<Rightarrow> package_request" where
  "child_request solver selection request d =
     \<lparr>rq_package = dep_name d,
      rq_source = infer_source selection d,
      rq_constraints = dep_constraints d,
      rq_required_by = rq_required_by request @ [sel_package selection],
      rq_bioc_release = infer_bioc_release solver selection d (rq_bioc_release request),
      rq_github_ref = None, rq_github_token = None, rq_github_slug = None\<rparr>"

definition selection_of :: "package_version \<Rightarrow> package_selection" where
  "selection_of candidate =
     \<lparr>sel_package = pv_name candidate, sel_version = pv_version candidate,
      sel_repo = pv_repo candidate, sel_source_url = pv_source_url candidate,
      sel_dependencies = pv_dependencies candidate, sel_r_min = pv_r_min candidate,
      sel_bioc_release = pv_bioc_release candidate\<rparr>"

text \<open>
  The texts of the errors. \<open>py_list_repr\<close> prints a list of strings as Python's
  \<open>repr\<close> does for strings that need no escape (operators and version tokens need
  none); \<open>join_comma\<close> is \<open>", ".join\<close>.
\<close>

fun join_with :: "string \<Rightarrow> string list \<Rightarrow> string" where
  "join_with sep [] = []"
| "join_with sep [s] = s"
| "join_with sep (s # t # ss) = s @ sep @ join_with sep (t # ss)"

definition py_list_repr :: "string list \<Rightarrow> string" where
  "py_list_repr ss = ''['' @ join_with '', '' (map (\<lambda>s. [CHR 0x27] @ s @ [CHR 0x27]) ss) @ '']''"

definition cycle_error :: "package_request \<Rightarrow> resolution_error" where
  "cycle_error request =
     \<lparr>err_package = rq_package request, err_required_by = rq_required_by request,
      err_message = ''Dependency cycle detected'', err_candidates = None\<rparr>"

definition unsatisfied_error :: "package_request \<Rightarrow> package_selection \<Rightarrow> resolution_error" where
  "unsatisfied_error request existing =
     \<lparr>err_package = rq_package request, err_required_by = rq_required_by request,
      err_message = ''Selected version '' @ sel_version existing @
        '' does not satisfy new constraints '' @
        py_list_repr (map (\<lambda>c. operator_text (vc_operator c) @ vc_version c) (rq_constraints request)),
      err_candidates = Some [sel_version existing]\<rparr>"

definition r_requirement_error :: "package_request \<Rightarrow> package_selection \<Rightarrow> resolution_error" where
  "r_requirement_error request existing =
     \<lparr>err_package = rq_package request, err_required_by = rq_required_by request,
      err_message = ''Selected version '' @ sel_version existing @ '' requires R>='' @
        str_or_default (sel_r_min existing) ''None'',
      err_candidates = Some [sel_version existing]\<rparr>"

definition no_candidates_error :: "package_request \<Rightarrow> resolution_error" where
  "no_candidates_error request =
     \<lparr>err_package = rq_package request, err_required_by = rq_required_by request,
      err_message = ''No candidate versions satisfy constraints'',
      err_candidates = Some [''(none)'']\<rparr>"

definition exhausted_error ::
  "package_request \<Rightarrow> package_version list \<Rightarrow> resolution_error list \<Rightarrow> resolution_error" where
  "exhausted_error request candidates failures =
     (let joined = join_with '', '' (py_sorted (\<lambda>a b. a < b) (remdups (map err_message failures))) in
      \<lparr>err_package = rq_package request, err_required_by = rq_required_by request,
       err_message = (if joined = [] then ''Unresolvable dependency chain'' else joined),
       err_candidates = Some (map (\<lambda>cand. pv_repo cand @ '' '' @ pv_version cand) candidates)\<rparr>)"

text \<open>
  \<open>_resolve_dependencies\<close> and \<open>_resolve_package\<close> call each other. The recursion
  has no bound in the code (Python stops it at its recursion limit), so the model counts
  the nested calls of \<open>_resolve_package\<close> with a fuel: \<open>resolve_package 0\<close> is
  \<open>None\<close>, a recursion deeper than the fuel. \<open>recur\<close> is \<open>_resolve_package\<close> one
  level down. A result is the value returned or the \<open>ResolutionError\<close> raised, with
  the state as the call leaves it: the state is mutated in place and is not restored
  when an error is raised.
\<close>

type_synonym package_result =
  "((resolution_error + package_selection) \<times> resolution_state) option"

fun resolve_dependencies ::
  "(package_request \<Rightarrow> resolution_state \<Rightarrow> package_result) \<Rightarrow> environment_solver
   \<Rightarrow> package_selection \<Rightarrow> package_request \<Rightarrow> dependency list \<Rightarrow> resolution_state
   \<Rightarrow> ((resolution_error + unit) \<times> resolution_state) option" where
  "resolve_dependencies recur solver selection request [] st = Some (Inr (), st)"
| "resolve_dependencies recur solver selection request (d # ds) st =
     (if dep_optional d \<and> \<not> st_include_optional st
      then resolve_dependencies recur solver selection request ds st
      else (case recur (child_request solver selection request d) st of
              None \<Rightarrow> None
            | Some (Inl e, st') \<Rightarrow> Some (Inl e, st')
            | Some (Inr child, st') \<Rightarrow>
                resolve_dependencies recur solver selection request ds st'))"

text \<open>
  The loop \<open>for candidate in candidates\<close> of \<open>_resolve_package\<close>, with the list
  \<open>failures\<close>: on an error of the dependencies, \<open>del state.assignments[package]\<close>
  and the next candidate; when the candidates are exhausted the failures are returned.
\<close>

fun try_candidates ::
  "(package_request \<Rightarrow> resolution_state \<Rightarrow> package_result) \<Rightarrow> environment_solver
   \<Rightarrow> package_request \<Rightarrow> version_constraint list \<Rightarrow> package_version list
   \<Rightarrow> resolution_error list \<Rightarrow> resolution_state
   \<Rightarrow> ((resolution_error list + package_selection) \<times> resolution_state) option" where
  "try_candidates recur solver request aggregated [] failures st = Some (Inl failures, st)"
| "try_candidates recur solver request aggregated (candidate # todo) failures st =
     (let selection = selection_of candidate;
          st1 = st\<lparr>st_assignments := (st_assignments st)(rq_package request \<mapsto> selection),
                   st_constraints := (st_constraints st)(rq_package request \<mapsto> aggregated)\<rparr>
      in case resolve_dependencies recur solver selection request
                (sel_dependencies selection) st1 of
           None \<Rightarrow> None
         | Some (Inr u, st2) \<Rightarrow>
             Some (Inr selection, st2\<lparr>st_visiting := st_visiting st2 - {rq_package request}\<rparr>)
         | Some (Inl e, st2) \<Rightarrow>
             try_candidates recur solver request aggregated todo (failures @ [e])
               (st2\<lparr>st_assignments := (st_assignments st2)(rq_package request := None)\<rparr>))"

definition constraints_of :: "resolution_state \<Rightarrow> string \<Rightarrow> version_constraint list" where
  "constraints_of st package = (case st_constraints st package of None \<Rightarrow> [] | Some cs \<Rightarrow> cs)"

definition resolve_package_body ::
  "(package_request \<Rightarrow> resolution_state \<Rightarrow> package_result) \<Rightarrow> environment_solver
   \<Rightarrow> package_request \<Rightarrow> resolution_state \<Rightarrow> package_result" where
  "resolve_package_body recur solver request st =
     (let package = rq_package request in
      if package \<in> st_visiting st then
        (case st_assignments st package of
           Some existing \<Rightarrow> Some (Inr existing, st)
         | None \<Rightarrow> Some (Inl (cycle_error request), st))
      else
        (let aggregated = constraints_of st package @ rq_constraints request in
         case st_assignments st package of
           Some existing \<Rightarrow>
             if \<not> satisfies_all (sel_version existing) aggregated
             then Some (Inl (unsatisfied_error request existing), st)
             else if r_min_exceeds (st_candidate_r st) (sel_r_min existing)
             then Some (Inl (r_requirement_error request existing), st)
             else Some (Inr existing,
                        st\<lparr>st_constraints := (st_constraints st)(package \<mapsto> aggregated)\<rparr>)
         | None \<Rightarrow>
             (let candidates = candidate_versions solver request st aggregated in
              if candidates = [] then Some (Inl (no_candidates_error request), st)
              else
                (let previous_constraints = constraints_of st package in
                 case try_candidates recur solver request aggregated candidates []
                        (st\<lparr>st_visiting := insert package (st_visiting st)\<rparr>) of
                   None \<Rightarrow> None
                 | Some (Inr selection, st2) \<Rightarrow> Some (Inr selection, st2)
                 | Some (Inl failures, st2) \<Rightarrow>
                     Some (Inl (exhausted_error request candidates failures),
                           st2\<lparr>st_visiting := st_visiting st2 - {package},
                               st_constraints :=
                                 (if previous_constraints \<noteq> []
                                  then (st_constraints st2)(package \<mapsto> previous_constraints)
                                  else (st_constraints st2)(package := None))\<rparr>)))))"

primrec resolve_package ::
  "nat \<Rightarrow> environment_solver \<Rightarrow> package_request \<Rightarrow> resolution_state \<Rightarrow> package_result" where
  "resolve_package 0 solver request st = None"
| "resolve_package (Suc fuel) solver request st =
     resolve_package_body (resolve_package fuel solver) solver request st"

text \<open>\<open>EnvironmentSolver.solve\<close>: the targets in their order, on a fresh state.\<close>

definition target_request :: "target_context \<Rightarrow> package_request" where
  "target_request target =
     \<lparr>rq_package = tc_package target, rq_source = Some (tc_source target),
      rq_constraints = tc_constraints target, rq_required_by = [tc_identifier target],
      rq_bioc_release = tc_bioc_release target, rq_github_ref = tc_github_ref target,
      rq_github_token = tc_github_token target, rq_github_slug = None\<rparr>"

definition initial_state :: "environment_solver \<Rightarrow> string \<Rightarrow> resolution_state" where
  "initial_state solver candidate_r =
     \<lparr>st_candidate_r = candidate_r, st_include_optional = es_include_optional solver,
      st_prefer_bioc_release = es_prefer_bioc_release solver,
      st_assignments = Map.empty, st_constraints = Map.empty, st_visiting = {},
      st_failure_traces = []\<rparr>"

fun solve_targets ::
  "nat \<Rightarrow> environment_solver \<Rightarrow> target_context list \<Rightarrow> resolution_state
   \<Rightarrow> ((resolution_error + unit) \<times> resolution_state) option" where
  "solve_targets fuel solver [] st = Some (Inr (), st)"
| "solve_targets fuel solver (target # targets) st =
     (case resolve_package fuel solver (target_request target) st of
        None \<Rightarrow> None
      | Some (Inl e, st') \<Rightarrow> Some (Inl e, st')
      | Some (Inr selection, st') \<Rightarrow> solve_targets fuel solver targets st')"

definition solve ::
  "nat \<Rightarrow> environment_solver \<Rightarrow> target_context list \<Rightarrow> string
   \<Rightarrow> (resolution_error + resolution_plan) option" where
  "solve fuel solver targets candidate_r =
     (case solve_targets fuel solver targets (initial_state solver candidate_r) of
        None \<Rightarrow> None
      | Some (Inl e, st) \<Rightarrow> Some (Inl e)
      | Some (Inr u, st) \<Rightarrow>
          Some (Inr \<lparr>plan_r_version = candidate_r, plan_selections = st_assignments st,
                     plan_notes = []\<rparr>))"

text \<open>
  \<open>_bioc_release_requirements\<close>: the dictionary \<open>requirements\<close> (release to required
  R), and the targets with the \<open>bioc_release\<close> the loop writes into them.
\<close>

fun bioc_release_requirements ::
  "target_context list \<Rightarrow> string option \<Rightarrow> (string \<times> string) list
   \<Rightarrow> (string \<times> string) list \<times> target_context list" where
  "bioc_release_requirements [] default_release requirements = (requirements, [])"
| "bioc_release_requirements (target # targets) default_release requirements =
     (let release = py_or (tc_bioc_release target)
                      (py_or default_release latest_bioconductor_release);
          required_r = bioconductor_r_version (str_or_default release [])
      in if tc_source target \<noteq> ''bioc'' \<and> tc_source target \<noteq> ''bioconductor''
            \<or> \<not> truthy release \<or> \<not> truthy required_r
         then (let (reqs, done) = bioc_release_requirements targets default_release requirements
               in (reqs, target # done))
         else (let (reqs, done) =
                     bioc_release_requirements targets default_release
                       (dict_set (str_or_default release []) (str_or_default required_r [])
                          requirements)
               in (reqs, target\<lparr>tc_bioc_release := release\<rparr> # done)))"

text \<open>
  The candidate R versions. A Python \<open>set\<close> of \<open>RVersion\<close> keeps one element for each
  tuple of components (\<open>__eq__\<close> and \<open>__hash__\<close> look at the components, which are
  not padded), the first one added: \<open>rv_set\<close>. The order in which a set is iterated is
  that of its hash table, which the program does not choose: it is the parameter
  \<open>set_order\<close>, a function that reorders the elements. \<open>sorted\<close> is stable, so that
  order shows in the result between candidates that compare equal.
\<close>

fun rv_set :: "rversion list \<Rightarrow> rversion list" where
  "rv_set [] = []"
| "rv_set (x # xs) = x # filter (\<lambda>y. \<not> rv_eq x y) (rv_set xs)"

definition r_candidates ::
  "(rversion list \<Rightarrow> rversion list) \<Rightarrow> (string \<times> string) list \<Rightarrow> rversion list" where
  "r_candidates set_order release_requirements =
     (let supported = py_sorted rv_lt (set_order (rv_set (map RVersion SUPPORTED_R_VERSIONS)))
      in py_sorted rv_lt
           (set_order (rv_set (supported @
              map (\<lambda>(release, required_r). RVersion required_r) release_requirements))))"

definition incompatible :: "(string \<times> string) list \<Rightarrow> string \<Rightarrow> bool" where
  "incompatible release_requirements candidate_str =
     list_ex (\<lambda>(release, required_r). compare_versions candidate_str required_r < 0)
       release_requirements"

text \<open>
  The handlers \<open>except ResolutionError as error\<close> of \<open>compute_resolution\<close> call
  \<open>Conflict(package=\<dots>, required_by=\<dots>, message=\<dots>, candidates=\<dots>)\<close>. The
  dataclass \<open>Conflict\<close> of models.py has the fields \<open>package\<close>, \<open>required_by\<close>,
  \<open>message\<close> and \<open>candidates_considered\<close>, and the \<open>__init__\<close> that
  \<open>@dataclass\<close> generates takes these names only: for another keyword the call raises
  a \<open>TypeError\<close>, here \<open>TypeError k\<close> for the keyword \<open>k\<close>. The handler is not
  inside another \<open>try\<close>, so the exception leaves \<open>compute_resolution\<close>.
  \<open>conflict_call\<close> is the call as the handlers write it, with the keywords
  \<open>conflict_keywords\<close>; a call with accepted keywords only would leave
  \<open>candidates_considered\<close> at its default, the empty list.
\<close>

datatype python_error = TypeError string

definition conflict_fields :: "string list" where
  "conflict_fields = [''package'', ''required_by'', ''message'', ''candidates_considered'']"

definition conflict_keywords :: "string list" where
  "conflict_keywords = [''package'', ''required_by'', ''message'', ''candidates'']"

definition conflict_call :: "resolution_error \<Rightarrow> python_error + conflict" where
  "conflict_call e =
     (case filter (\<lambda>keyword. keyword \<notin> set conflict_fields) conflict_keywords of
        keyword # others \<Rightarrow> Inl (TypeError keyword)
      | [] \<Rightarrow>
          Inr \<lparr>cf_package = err_package e, cf_required_by = err_required_by e,
               cf_message = err_message e, cf_candidates_considered = []\<rparr>)"

text \<open>
  The loop \<open>for candidate in candidate_versions\<close> of \<open>compute_resolution\<close>. Its result
  is \<open>Inl\<close> of the exception that leaves the function, or \<open>Inr\<close> of the pair returned.
\<close>

fun resolution_loop ::
  "nat \<Rightarrow> environment_solver \<Rightarrow> target_context list \<Rightarrow> (string \<times> string) list
   \<Rightarrow> rversion list \<Rightarrow> conflict list
   \<Rightarrow> (python_error + resolution_plan option \<times> conflict list) option" where
  "resolution_loop fuel solver targets release_requirements [] conflicts =
     Some (Inr (None, conflicts))"
| "resolution_loop fuel solver targets release_requirements (candidate # todo) conflicts =
     (if incompatible release_requirements (raw candidate)
      then resolution_loop fuel solver targets release_requirements todo conflicts
      else (case solve fuel solver targets (raw candidate) of
              None \<Rightarrow> None
            | Some (Inr plan) \<Rightarrow> Some (Inr (Some plan, conflicts))
            | Some (Inl e) \<Rightarrow>
                (case conflict_call e of
                   Inl raised \<Rightarrow> Some (Inl raised)
                 | Inr conflict \<Rightarrow>
                     resolution_loop fuel solver targets release_requirements todo
                       (conflicts @ [conflict]))))"

definition compute_resolution ::
  "(rversion list \<Rightarrow> rversion list) \<Rightarrow> nat \<Rightarrow> metadata_answers \<Rightarrow> target_context list
   \<Rightarrow> bool \<Rightarrow> string option \<Rightarrow> string option
   \<Rightarrow> (python_error + resolution_plan option \<times> conflict list) option" where
  "compute_resolution set_order fuel metadata targets include_optional prefer_bioc_release locked_r =
     (let solver = \<lparr>es_metadata = metadata, es_include_optional = include_optional,
                     es_prefer_bioc_release = prefer_bioc_release\<rparr>;
          default_release = py_or prefer_bioc_release latest_bioconductor_release;
          (release_requirements, cloned_targets) =
             bioc_release_requirements targets default_release []
      in if truthy locked_r
         then (case solve fuel solver cloned_targets (str_or_default locked_r []) of
                 None \<Rightarrow> None
               | Some (Inr plan) \<Rightarrow> Some (Inr (Some plan, []))
               | Some (Inl e) \<Rightarrow>
                   (case conflict_call e of
                      Inl raised \<Rightarrow> Some (Inl raised)
                    | Inr conflict \<Rightarrow> Some (Inr (None, [conflict]))))
         else resolution_loop fuel solver cloned_targets release_requirements
                (r_candidates set_order release_requirements) [])"

text \<open>
  The scenario "unsatisfiable constraint" of the specification: a provider that knows the
  package \<open>foo\<close> on CRAN, in version 1.0 only, and the target \<open>foo\<close> with the
  constraint \<open>>= 9.9\<close>.
\<close>

definition foo_1_0 :: package_version where
  "foo_1_0 =
     \<lparr>pv_name = ''foo'', pv_version = ''1.0'', pv_repo = ''CRAN'', pv_r_min = None,
      pv_dependencies = [], pv_bioc_release = None,
      pv_source_url = Some ''https://cran.r-project.org/package=foo'', pv_metadata = [],
      pv_published = None\<rparr>"

definition foo_provider :: metadata_answers where
  "foo_provider =
     \<lparr>md_cran = (\<lambda>package. if package = ''foo'' then Inr [foo_1_0]
                            else Inl (MetadataFetchError ''HTTP 404'')),
      md_bioc = (\<lambda>package release.
                   Inl (MetadataFetchError (package @ '' not found in Bioconductor release '' @ release))),
      md_github = (\<lambda>owner repo ref token. Inl (MetadataFetchError ''HTTP 404''))\<rparr>"

definition foo_target :: target_context where
  "foo_target =
     \<lparr>tc_identifier = ''foo'', tc_package = ''foo'', tc_source = ''cran'',
      tc_constraints = parse_constraint_expression ''>= 9.9'', tc_bioc_release = None,
      tc_github_ref = None, tc_github_token = None, tc_github_slug = None\<rparr>"

section \<open>metadata.py: the provider and its memos\<close>

text \<open>
  \<open>_parse_description\<close>. \<open>splitlines_from\<close> is \<open>str.splitlines\<close> (on ASCII the line
  boundaries are the codes 10 to 13, the pair 13 10, and 28 to 30), with the line read so
  far. The loop keeps the dictionary \<open>result\<close>, \<open>current_key\<close> and \<open>current_value\<close>.
\<close>

definition is_linebreak :: "char \<Rightarrow> bool" where
  "is_linebreak c = (let n = (of_char c :: nat) in (10 \<le> n \<and> n \<le> 13) \<or> (28 \<le> n \<and> n \<le> 30))"

fun splitlines_from :: "string \<Rightarrow> string \<Rightarrow> string list" where
  "splitlines_from cur [] = (if cur = [] then [] else [cur])"
| "splitlines_from cur [c] = (if is_linebreak c then [cur] else [cur @ [c]])"
| "splitlines_from cur (c # d # cs) =
     (if c = CHR 0x0D \<and> d = CHR 0x0A then cur # splitlines_from [] cs
      else if is_linebreak c then cur # splitlines_from [] (d # cs)
      else splitlines_from (cur @ [c]) (d # cs))"

definition splitlines :: "string \<Rightarrow> string list" where
  "splitlines s = splitlines_from [] s"

definition flush_field ::
  "(string \<times> string) list \<Rightarrow> string option \<Rightarrow> string list \<Rightarrow> (string \<times> string) list" where
  "flush_field result current_key current_value =
     (if truthy current_key
      then dict_set (str_or_default current_key [])
             (join_with '' '' (map strip (filter (\<lambda>part. part \<noteq> []) current_value))) result
      else result)"

fun parse_description_lines ::
  "string list \<Rightarrow> (string \<times> string) list \<Rightarrow> string option \<Rightarrow> string list
   \<Rightarrow> (string \<times> string) list" where
  "parse_description_lines [] result current_key current_value =
     flush_field result current_key current_value"
| "parse_description_lines (line # lines) result current_key current_value =
     (if strip line = []
      then parse_description_lines lines (flush_field result current_key current_value) None []
      else if take 1 line \<noteq> '' '' \<and> CHR '':'' \<in> set line
      then parse_description_lines lines (flush_field result current_key current_value)
             (Some (strip (takeWhile (\<lambda>c. c \<noteq> CHR '':'') line)))
             [strip (tl (dropWhile (\<lambda>c. c \<noteq> CHR '':'') line))]
      else parse_description_lines lines result current_key (current_value @ [line]))"

definition parse_description :: "string \<Rightarrow> (string \<times> string) list" where
  "parse_description text = parse_description_lines (splitlines text) [] None []"

text \<open>What \<open>fetch_github_description\<close> returns, and \<open>GithubMetadata\<close>.\<close>

record github_descriptor =
  gd_commit :: string
  gd_ref :: "string option"
  gd_description :: string
  gd_commit_timestamp :: "string option"
  gd_url :: "string option"

record github_metadata =
  gm_owner :: string
  gm_repo :: string
  gm_commit :: string
  gm_description :: "(string \<times> string) list"
  gm_ref :: "string option"
  gm_url :: "string option"
  gm_timestamp :: "string option"

definition description_get :: "(string \<times> string) list \<Rightarrow> string \<Rightarrow> dep_section" where
  "description_get desc key = (case map_of desc key of None \<Rightarrow> SecNone | Some s \<Rightarrow> SecStr s)"

definition normalize_github_payload ::
  "github_metadata \<Rightarrow> metadata_fetch_error + package_version" where
  "normalize_github_payload info =
     (let desc = gm_description info; package = map_of desc ''Package'' in
      if \<not> truthy package
      then Inl (MetadataFetchError ''GitHub DESCRIPTION missing Package field'')
      else (let (dependencies, r_min) = build_dependencies (description_get desc) False in
            Inr \<lparr>pv_name = str_or_default package [],
                 pv_version = str_or_default (map_of desc ''Version'') ''0.0.0'',
                 pv_repo = ''GitHub'', pv_r_min = r_min, pv_dependencies = dependencies,
                 pv_bioc_release = None, pv_source_url = gm_url info,
                 pv_metadata =
                   [(''commit'', gm_commit info),
                    (''repo'', gm_owner info @ ''/'' @ gm_repo info),
                    (''ref'', str_or_default (py_or (gm_ref info) (Some [])) [])],
                 pv_published = gm_timestamp info\<rparr>))"

text \<open>
  The raw answer of crandb for a package: its \<open>versions\<close> mapping, when it has one, and
  whether it has any other key (an empty dictionary is false in \<open>if not raw\<close>). The raw
  answer for a Bioconductor release is a mapping from package names to payloads.
\<close>

record cran_raw =
  cr_versions :: "(string \<times> payload) list option"
  cr_other_keys :: bool

definition cran_raw_truthy :: "cran_raw option \<Rightarrow> bool" where
  "cran_raw_truthy r =
     (case r of None \<Rightarrow> False | Some c \<Rightarrow> cr_versions c \<noteq> None \<or> cr_other_keys c)"

text \<open>
  The network: what the three fetch functions of \<open>fetchers.py\<close> return or raise. A
  fetch may fail now and succeed later, so an answer may depend on the number of fetches
  made before it.
\<close>

record network =
  fetch_cran_package :: "nat \<Rightarrow> string \<Rightarrow> metadata_fetch_error + cran_raw"
  fetch_bioconductor_release :: "nat \<Rightarrow> string \<Rightarrow> metadata_fetch_error + (string \<times> payload) list"
  fetch_github_description ::
    "nat \<Rightarrow> string \<Rightarrow> string \<Rightarrow> string option \<Rightarrow> string option
     \<Rightarrow> metadata_fetch_error + github_descriptor"

datatype fetch_call =
    FetchCran string
  | FetchBioc string
  | FetchGithub string string "string option" "string option"

text \<open>
  The state of a \<open>MetadataProvider\<close>: the three memos \<open>_cran\<close>, \<open>_bioc\<close> and
  \<open>_github\<close>, the files of the cache under \<open>cran/\<close>, \<open>bioconductor/\<close> and
  \<open>github/\<close> by file name, and the calls of the fetch functions made so far, in
  order (kept to count them). The cache writes JSON with sorted keys: a file holds a
  mapping in the order of its keys.
\<close>

record github_file =
  gf_owner :: string
  gf_repo :: string
  gf_commit :: string
  gf_ref :: "string option"
  gf_timestamp :: "string option"
  gf_url :: "string option"
  gf_description :: "(string \<times> string) list"

record provider =
  pr_cran :: "string \<rightharpoonup> package_version list"
  pr_bioc :: "string \<rightharpoonup> (string \<times> package_version) list"
  pr_github :: "string \<times> string \<times> string \<rightharpoonup> package_version"
  pr_disk_cran :: "string \<rightharpoonup> cran_raw"
  pr_disk_bioc :: "string \<rightharpoonup> (string \<times> payload) list"
  pr_disk_github :: "string \<rightharpoonup> github_file"
  pr_fetches :: "fetch_call list"

definition new_provider :: provider where
  "new_provider =
     \<lparr>pr_cran = Map.empty, pr_bioc = Map.empty, pr_github = Map.empty,
      pr_disk_cran = Map.empty, pr_disk_bioc = Map.empty, pr_disk_github = Map.empty,
      pr_fetches = []\<rparr>"

definition sanitize :: "string \<Rightarrow> string" where
  "sanitize segment = concat (map (\<lambda>c. if c = CHR ''/'' then ''__'' else [c]) segment)"

definition sort_keys :: "(string \<times> 'v) list \<Rightarrow> (string \<times> 'v) list" where
  "sort_keys d = py_sorted (\<lambda>a b. fst a < fst b) d"

definition sort_section :: "dep_section \<Rightarrow> dep_section" where
  "sort_section s = (case s of SecDict d \<Rightarrow> SecDict (sort_keys d) | other \<Rightarrow> other)"

definition stored_payload :: "payload \<Rightarrow> payload" where
  "stored_payload p =
     p\<lparr>pl_depends := sort_section (pl_depends p), pl_imports := sort_section (pl_imports p),
       pl_linking_to := sort_section (pl_linking_to p),
       pl_suggests := sort_section (pl_suggests p)\<rparr>"

definition stored_payloads :: "(string \<times> payload) list \<Rightarrow> (string \<times> payload) list" where
  "stored_payloads d = sort_keys (map (\<lambda>(k, p). (k, stored_payload p)) d)"

definition stored_cran_raw :: "cran_raw \<Rightarrow> cran_raw" where
  "stored_cran_raw r = r\<lparr>cr_versions := map_option stored_payloads (cr_versions r)\<rparr>"

text \<open>\<open>get_cran_versions\<close>; \<open>memoize_cran\<close> is its part after the raw answer is at hand.\<close>

definition memoize_cran ::
  "string \<Rightarrow> cran_raw \<Rightarrow> provider \<Rightarrow> (metadata_fetch_error + package_version list) \<times> provider" where
  "memoize_cran package r st =
     (let versions =
            py_sorted_reverse version_key_lt
              (map (\<lambda>(ver, p). normalize_cran_payload package p ver)
                 (case cr_versions r of None \<Rightarrow> [] | Some vs \<Rightarrow> vs))
      in (Inr versions, st\<lparr>pr_cran := (pr_cran st)(package \<mapsto> versions)\<rparr>))"

definition get_cran_versions ::
  "network \<Rightarrow> string \<Rightarrow> provider \<Rightarrow> (metadata_fetch_error + package_version list) \<times> provider" where
  "get_cran_versions net package st =
     (case pr_cran st package of
        Some versions \<Rightarrow> (Inr versions, st)
      | None \<Rightarrow>
          (let cache_key = sanitize (package @ ''.json''); loaded = pr_disk_cran st cache_key in
           case (if cran_raw_truthy loaded then loaded else None) of
             Some r \<Rightarrow> memoize_cran package r st
           | None \<Rightarrow>
               (let st1 = st\<lparr>pr_fetches := pr_fetches st @ [FetchCran package]\<rparr> in
                case fetch_cran_package net (length (pr_fetches st)) package of
                  Inl e \<Rightarrow> (Inl e, st1)
                | Inr r \<Rightarrow>
                    memoize_cran package r
                      (st1\<lparr>pr_disk_cran := (pr_disk_cran st1)(cache_key \<mapsto> stored_cran_raw r)\<rparr>))))"

text \<open>\<open>_load_bioc_release\<close> and \<open>get_bioconductor_versions\<close>.\<close>

definition memoize_bioc ::
  "string \<Rightarrow> (string \<times> payload) list \<Rightarrow> provider
   \<Rightarrow> (metadata_fetch_error + (string \<times> package_version) list) \<times> provider" where
  "memoize_bioc release r st =
     (let normalized = map (\<lambda>(name, p). (name, normalize_bioc_payload name p release)) r
      in (Inr normalized, st\<lparr>pr_bioc := (pr_bioc st)(release \<mapsto> normalized)\<rparr>))"

definition load_bioc_release ::
  "network \<Rightarrow> string \<Rightarrow> provider
   \<Rightarrow> (metadata_fetch_error + (string \<times> package_version) list) \<times> provider" where
  "load_bioc_release net release st =
     (case pr_bioc st release of
        Some release_data \<Rightarrow> (Inr release_data, st)
      | None \<Rightarrow>
          (let cache_key = sanitize (release @ ''.json''); loaded = pr_disk_bioc st cache_key in
           case loaded of
             Some (entry # entries) \<Rightarrow> memoize_bioc release (entry # entries) st
           | other \<Rightarrow>
               (let st1 = st\<lparr>pr_fetches := pr_fetches st @ [FetchBioc release]\<rparr> in
                case fetch_bioconductor_release net (length (pr_fetches st)) release of
                  Inl e \<Rightarrow> (Inl e, st1)
                | Inr r \<Rightarrow>
                    memoize_bioc release r
                      (st1\<lparr>pr_disk_bioc := (pr_disk_bioc st1)(cache_key \<mapsto> stored_payloads r)\<rparr>))))"

definition get_bioconductor_versions ::
  "network \<Rightarrow> string \<Rightarrow> string \<Rightarrow> provider
   \<Rightarrow> (metadata_fetch_error + package_version list) \<times> provider" where
  "get_bioconductor_versions net package release st =
     (case load_bioc_release net release st of
        (Inl e, st') \<Rightarrow> (Inl e, st')
      | (Inr release_data, st') \<Rightarrow>
          (case map_of release_data package of
             None \<Rightarrow> (Inl (MetadataFetchError
                        (package @ '' not found in Bioconductor release '' @ release)), st')
           | Some v \<Rightarrow> (Inr [v], st')))"

text \<open>
  \<open>get_github_version\<close>: the fetch comes first, in every call; the memo \<open>_github\<close> and
  the cache file are written after it, and nothing reads the memo.
\<close>

definition get_github_version ::
  "network \<Rightarrow> string \<Rightarrow> string \<Rightarrow> string option \<Rightarrow> string option \<Rightarrow> provider
   \<Rightarrow> (metadata_fetch_error + package_version) \<times> provider" where
  "get_github_version net owner repo ref token st =
     (let st1 = st\<lparr>pr_fetches := pr_fetches st @ [FetchGithub owner repo ref token]\<rparr> in
      case fetch_github_description net (length (pr_fetches st)) owner repo ref token of
        Inl e \<Rightarrow> (Inl e, st1)
      | Inr descriptor \<Rightarrow>
          (let description = parse_description (gd_description descriptor);
               info = \<lparr>gm_owner = owner, gm_repo = repo, gm_commit = gd_commit descriptor,
                       gm_description = description, gm_ref = gd_ref descriptor,
                       gm_url = gd_url descriptor, gm_timestamp = gd_commit_timestamp descriptor\<rparr>
           in case normalize_github_payload info of
                Inl e \<Rightarrow> (Inl e, st1)
              | Inr package_version \<Rightarrow>
                  (Inr package_version,
                   st1\<lparr>pr_github := (pr_github st1)((owner, repo, gm_commit info) \<mapsto> package_version),
                       pr_disk_github := (pr_disk_github st1)
                         (sanitize (owner @ ''__'' @ repo @ ''__'' @ gm_commit info @ ''.json'') \<mapsto>
                            \<lparr>gf_owner = owner, gf_repo = repo, gf_commit = gm_commit info,
                             gf_ref = gm_ref info, gf_timestamp = gm_timestamp info,
                             gf_url = gm_url info,
                             gf_description = sort_keys description\<rparr>)\<rparr>)))"

text \<open>\<open>get_versions\<close>, the dispatch on the source.\<close>

definition get_versions ::
  "network \<Rightarrow> string \<Rightarrow> string \<Rightarrow> string option \<Rightarrow> string option \<Rightarrow> string option \<Rightarrow> provider
   \<Rightarrow> (metadata_fetch_error + package_version list) \<times> provider" where
  "get_versions net package source bioc_release github_ref github_token st =
     (let src = lower source in
      if src = ''cran'' then get_cran_versions net package st
      else if src = ''bioc'' \<or> src = ''bioconductor'' then
        (if \<not> truthy bioc_release
         then (Inl (MetadataFetchError
                 ''Bioconductor release must be specified for Bioconductor packages''), st)
         else get_bioconductor_versions net package (str_or_default bioc_release []) st)
      else if src = ''github'' then
        (if CHR ''/'' \<notin> set package
         then (Inl (MetadataFetchError ''GitHub packages must be provided as owner/repo''), st)
         else (case get_github_version net (takeWhile (\<lambda>c. c \<noteq> CHR ''/'') package)
                      (tl (dropWhile (\<lambda>c. c \<noteq> CHR ''/'') package)) github_ref github_token st of
                 (Inl e, st') \<Rightarrow> (Inl e, st')
               | (Inr v, st') \<Rightarrow> (Inr [v], st')))
      else (Inl (MetadataFetchError (''Unsupported source: '' @ src)), st))"

text \<open>
  A network for one repository on GitHub, \<open>owner/demo\<close>, whose \<open>DESCRIPTION\<close>
  names the package \<open>demo\<close>; every other fetch fails.
\<close>

definition demo_descriptor :: github_descriptor where
  "demo_descriptor =
     \<lparr>gd_commit = ''abc123'', gd_ref = Some ''main'',
      gd_description = ''Package: demo'' @ [CHR 0x0A] @ ''Version: 1.0'' @ [CHR 0x0A],
      gd_commit_timestamp = None, gd_url = None\<rparr>"

definition demo_network :: network where
  "demo_network =
     \<lparr>fetch_cran_package = (\<lambda>n package. Inl (MetadataFetchError ''HTTP 404'')),
      fetch_bioconductor_release = (\<lambda>n release. Inl (MetadataFetchError ''HTTP 404'')),
      fetch_github_description =
        (\<lambda>n owner repo ref token.
           if owner = ''owner'' \<and> repo = ''demo'' then Inr demo_descriptor
           else Inl (MetadataFetchError ''HTTP 404''))\<rparr>"

section \<open>Scenarios for the resolver\<close>

definition cran_version ::
  "string \<Rightarrow> string \<Rightarrow> string option \<Rightarrow> string list \<Rightarrow> package_version" where
  "cran_version name ver r_min dep_names =
     \<lparr>pv_name = name, pv_version = ver, pv_repo = ''CRAN'', pv_r_min = r_min,
      pv_dependencies =
        map (\<lambda>n. \<lparr>dep_name = n, dep_constraints = [], dep_kind = ''Depends'',
                   dep_optional = False, dep_source_hint = None\<rparr>) dep_names,
      pv_bioc_release = None,
      pv_source_url = Some (''https://cran.r-project.org/package='' @ name),
      pv_metadata = [], pv_published = None\<rparr>"

definition cran_only :: "(string \<times> package_version list) list \<Rightarrow> metadata_answers" where
  "cran_only packages =
     \<lparr>md_cran = (\<lambda>package. case map_of packages package of
                              None \<Rightarrow> Inl (MetadataFetchError ''HTTP 404'')
                            | Some versions \<Rightarrow> Inr versions),
      md_bioc = (\<lambda>package release.
                   Inl (MetadataFetchError (package @ '' not found in Bioconductor release '' @ release))),
      md_github = (\<lambda>owner repo ref token. Inl (MetadataFetchError ''HTTP 404''))\<rparr>"

definition cran_target :: "string \<Rightarrow> target_context" where
  "cran_target name =
     \<lparr>tc_identifier = name, tc_package = name, tc_source = ''cran'', tc_constraints = [],
      tc_bioc_release = None, tc_github_ref = None, tc_github_token = None,
      tc_github_slug = None\<rparr>"


text \<open>
  A scenario with an abandoned candidate: \<open>P 2.0\<close> depends on \<open>X\<close> and on \<open>Y\<close>,
  \<open>P 1.0\<close> on nothing; \<open>X\<close> exists and \<open>Y\<close> is unknown to the provider.
\<close>

definition backtrack_provider :: metadata_answers where
  "backtrack_provider =
     cran_only
       [(''P'', [cran_version ''P'' ''2.0'' None [''X'', ''Y''],
                 cran_version ''P'' ''1.0'' None []]),
        (''X'', [cran_version ''X'' ''1.0'' None []])]"

definition plain_solver :: "metadata_answers \<Rightarrow> environment_solver" where
  "plain_solver md = \<lparr>es_metadata = md, es_include_optional = False, es_prefer_bioc_release = None\<rparr>"

text \<open>
  The states of that scenario around the first candidate of \<open>P\<close>: \<open>backtrack_entered\<close>
  when the loop over the candidates of \<open>P\<close> starts, and \<open>backtrack_failed\<close> when the
  dependencies of \<open>P 2.0\<close> have raised their error (\<open>X\<close> resolved, \<open>Y\<close> without
  candidates).
\<close>

definition backtrack_entered :: resolution_state where
  "backtrack_entered =
     (initial_state (plain_solver backtrack_provider) ''4.3.0'')\<lparr>st_visiting := {''P''}\<rparr>"

definition backtrack_failed :: resolution_state where
  "backtrack_failed =
     backtrack_entered
       \<lparr>st_assignments :=
          [''P'' \<mapsto> selection_of (cran_version ''P'' ''2.0'' None [''X'', ''Y'']),
           ''X'' \<mapsto> selection_of (cran_version ''X'' ''1.0'' None [])],
        st_constraints := [''P'' \<mapsto> [], ''X'' \<mapsto> []]\<rparr>"

definition backtrack_error :: resolution_error where
  "backtrack_error =
     \<lparr>err_package = ''Y'', err_required_by = [''P'', ''P''],
      err_message = ''No candidate versions satisfy constraints'',
      err_candidates = Some [''(none)'']\<rparr>"

text \<open>
  The scenario "Bioconductor pins the R series" of the specification: the target
  \<open>limma\<close> of Bioconductor on release 3.17, which the table binds to R 4.3; the
  provider knows \<open>limma\<close> in that release only.
\<close>

definition limma_version :: package_version where
  "limma_version =
     \<lparr>pv_name = ''limma'', pv_version = ''3.56.2'', pv_repo = ''Bioconductor'', pv_r_min = None,
      pv_dependencies = [], pv_bioc_release = Some ''3.17'',
      pv_source_url = Some ''https://bioconductor.org/packages/3.17/bioc/html/limma.html'',
      pv_metadata = [(''category'', ''bioc''), (''git_branch'', [])], pv_published = None\<rparr>"

definition limma_provider :: metadata_answers where
  "limma_provider =
     \<lparr>md_cran = (\<lambda>package. Inl (MetadataFetchError ''HTTP 404'')),
      md_bioc = (\<lambda>package release.
                   if package = ''limma'' \<and> release = ''3.17'' then Inr [limma_version]
                   else Inl (MetadataFetchError
                          (package @ '' not found in Bioconductor release '' @ release))),
      md_github = (\<lambda>owner repo ref token. Inl (MetadataFetchError ''HTTP 404''))\<rparr>"

definition limma_target :: target_context where
  "limma_target =
     \<lparr>tc_identifier = ''limma'', tc_package = ''limma'', tc_source = ''bioc'',
      tc_constraints = [], tc_bioc_release = Some ''3.17'', tc_github_ref = None,
      tc_github_token = None, tc_github_slug = None\<rparr>"

definition limma_plan :: "string \<Rightarrow> resolution_plan" where
  "limma_plan r =
     \<lparr>plan_r_version = r, plan_selections = [''limma'' \<mapsto> selection_of limma_version],
      plan_notes = []\<rparr>"

text \<open>
  A package that needs a newer R than the first candidates: \<open>baz 1.0\<close> of CRAN
  depends on \<open>R (>= 4.1)\<close>.
\<close>

definition baz_provider :: metadata_answers where
  "baz_provider = cran_only [(''baz'', [cran_version ''baz'' ''1.0'' (Some ''4.1'') []])]"

definition baz_plan :: "string \<Rightarrow> resolution_plan" where
  "baz_plan r =
     \<lparr>plan_r_version = r,
      plan_selections = [''baz'' \<mapsto> selection_of (cran_version ''baz'' ''1.0'' (Some ''4.1'') [])],
      plan_notes = []\<rparr>"

section \<open>Facts about the version algebra\<close>

lemmas char_simps = is_space_def is_digit_def is_alpha_def digit_val_def int_of_digits_def
  isdigit_def strip_def is_separator_def tokenize_def component_def RVersion_def
  compare_step_def rv_compare_def compare_versions_def lower_def lower_char_def

lemmas parse_simps = parse_constraint_expression_def match_here_def match_operator_def
  is_version_char_def

text \<open>
  The loop over \<open>zip_longest\<close> computes the lexicographic comparison of the two tuples
  padded to any common length.
\<close>

lemma compare_components_pad:
  "length xs \<le> n \<Longrightarrow> length ys \<le> n \<Longrightarrow>
   compare_components xs ys =
     (if pad_components n xs < pad_components n ys then - 1
      else if pad_components n xs = pad_components n ys then 0 else 1)"
proof (induction xs ys arbitrary: n rule: compare_components.induct)
  case 1
  then show ?case by (simp add: pad_components_def)
next
  case (2 l ls)
  then obtain m where n: "n = Suc m" by (cases n) auto
  with 2 have len: "length ls \<le> m" by simp
  have ih: "compare_components ls [] =
     (if pad_components m ls < pad_components m [] then - 1
      else if pad_components m ls = pad_components m [] then 0 else 1)"
    using 2(1)[OF len] by simp
  have p1: "pad_components n (l # ls) = l # pad_components m ls"
    by (simp add: pad_components_def n)
  have p2: "pad_components n [] = (0, []) # pad_components m []"
    by (simp add: pad_components_def n)
  show ?case unfolding p1 p2 compare_components.simps ih
    by (cases l) (auto simp: compare_step_def)
next
  case (3 r rs)
  then obtain m where n: "n = Suc m" by (cases n) auto
  with 3 have len: "length rs \<le> m" by simp
  have ih: "compare_components [] rs =
     (if pad_components m [] < pad_components m rs then - 1
      else if pad_components m [] = pad_components m rs then 0 else 1)"
    using 3(1)[OF _ len] by simp
  have p1: "pad_components n (r # rs) = r # pad_components m rs"
    by (simp add: pad_components_def n)
  have p2: "pad_components n [] = (0, []) # pad_components m []"
    by (simp add: pad_components_def n)
  show ?case unfolding p1 p2 compare_components.simps ih
    by (cases r) (auto simp: compare_step_def)
next
  case (4 l ls r rs)
  then obtain m where n: "n = Suc m" by (cases n) auto
  with 4 have len: "length ls \<le> m" "length rs \<le> m" by simp_all
  have ih: "compare_components ls rs =
     (if pad_components m ls < pad_components m rs then - 1
      else if pad_components m ls = pad_components m rs then 0 else 1)"
    using 4(1)[OF len] by simp
  have p1: "pad_components n (l # ls) = l # pad_components m ls"
    by (simp add: pad_components_def n)
  have p2: "pad_components n (r # rs) = r # pad_components m rs"
    by (simp add: pad_components_def n)
  show ?case unfolding p1 p2 compare_components.simps ih
    by (cases l; cases r) (auto simp: compare_step_def)
qed


text \<open>
  Claim C7. \<open>compare_versions\<close> is the lexicographic comparison of the parsed
  (number, suffix) components with the shorter tuple padded by \<open>(0, "")\<close>, and the five
  orderings the specification lists hold:
  \<open>compare("1.0", "1.0.0") = 0\<close>, \<open>compare("1.10", "1.9") = 1\<close>,
  \<open>compare("1.0-1", "1.0") = 1\<close>, \<open>compare("1.0a", "1.0b") = -1\<close> and
  \<open>compare("2.0.0", "2.0.0-1") = -1\<close>.
\<close>

theorem compare_versions_lexicographic:
  "compare_versions a b = spec_compare a b \<and>
   compare_versions ''1.0'' ''1.0.0'' = 0 \<and>
   compare_versions ''1.10'' ''1.9'' = 1 \<and>
   compare_versions ''1.0-1'' ''1.0'' = 1 \<and>
   compare_versions ''1.0a'' ''1.0b'' = - 1 \<and>
   compare_versions ''2.0.0'' ''2.0.0-1'' = - 1"
proof -
  have g: "compare_versions a b = spec_compare a b"
    unfolding compare_versions_def spec_compare_def rv_compare_def Let_def
    by (rule compare_components_pad) simp_all
  have e1: "compare_versions ''1.0'' ''1.0.0'' = 0" by (simp add: char_simps)
  have e2: "compare_versions ''1.10'' ''1.9'' = 1" by (simp add: char_simps)
  have e3: "compare_versions ''1.0-1'' ''1.0'' = 1" by (simp add: char_simps)
  have e4: "compare_versions ''1.0a'' ''1.0b'' = - 1" by (simp add: char_simps)
  have e5: "compare_versions ''2.0.0'' ''2.0.0-1'' = - 1" by (simp add: char_simps)
  from g e1 e2 e3 e4 e5 show ?thesis by blast
qed

section \<open>Facts about the constraint parser\<close>

text \<open>
  White space around a fragment does not change what the pattern finds in it: no operator
  and no version token holds a white space character. So the \<open>strip\<close> of the code
  is invisible in the result.
\<close>


lemma space_not_operator_char: "is_space c \<Longrightarrow> c \<notin> set ''><=!''"
  by (auto simp: is_space_def)

lemma space_not_version_char: "is_space c \<Longrightarrow> \<not> is_version_char c"
  by (auto simp: is_space_def is_version_char_def is_digit_def is_alpha_def)

lemma operator_text_chars: "set (operator_text opr) \<subseteq> set ''><=!''"
  by (cases opr) auto

lemma strip_prefix_append_spaces:
  "\<forall>c \<in> set p. \<not> is_space c \<Longrightarrow> list_all is_space ws \<Longrightarrow>
   strip_prefix p (s @ ws) = map_option (\<lambda>r. r @ ws) (strip_prefix p s)"
proof (induction p s rule: strip_prefix.induct)
  case (1 s)
  then show ?case by simp
next
  case (2 p ps)
  then show ?case by (cases ws) auto
next
  case (3 p ps c cs)
  then show ?case by simp
qed

lemma token_append_spaces:
  assumes "list_all is_space ws"
  shows "takeWhile is_version_char (dropWhile is_space (r @ ws)) =
         takeWhile is_version_char (dropWhile is_space r)"
proof (cases "list_all is_space r")
  case True
  then have e: "dropWhile is_space (r @ ws) = []" "dropWhile is_space r = []"
    using assms by (auto simp: list_all_iff dropWhile_eq_Nil_conv)
  show ?thesis unfolding e ..
next
  case False
  then have d: "dropWhile is_space (r @ ws) = dropWhile is_space r @ ws"
    by (auto simp: list_all_iff dropWhile_append)
  have "takeWhile is_version_char (x @ ws) = takeWhile is_version_char x" for x
    using assms by (induction x) (cases ws; simp add: space_not_version_char)+
  with d show ?thesis by simp
qed

lemma match_operator_append_spaces:
  assumes "list_all is_space ws"
  shows "match_operator opr (s @ ws) = match_operator opr s"
proof -
  have ns: "\<forall>c \<in> set (operator_text opr). \<not> is_space c"
    using operator_text_chars[of opr] space_not_operator_char by blast
  show ?thesis
    unfolding match_operator_def strip_prefix_append_spaces[OF ns assms]
    by (cases "strip_prefix (operator_text opr) s") (simp_all add: token_append_spaces[OF assms])
qed

lemma first_match_append_spaces:
  "list_all is_space ws \<Longrightarrow> first_match oprs (s @ ws) = first_match oprs s"
  by (induction oprs) (simp_all add: match_operator_append_spaces split: option.splits)

lemma match_here_append_spaces:
  "list_all is_space ws \<Longrightarrow> match_here (s @ ws) = match_here s"
  unfolding match_here_def by (rule first_match_append_spaces)

lemma match_operator_space: "is_space c \<Longrightarrow> match_operator opr (c # s) = None"
  using space_not_operator_char[of c]
  by (cases opr) (auto simp: match_operator_def)

lemma match_operator_Nil: "match_operator opr [] = None"
  by (cases opr) (auto simp: match_operator_def)

lemma match_here_space: "is_space c \<Longrightarrow> match_here (c # s) = None"
  by (simp add: match_here_def match_operator_space)

lemma match_here_Nil: "match_here [] = None"
  by (simp add: match_here_def match_operator_Nil)

lemma regex_search_spaces: "list_all is_space ws \<Longrightarrow> regex_search ws = None"
  by (induction ws) (simp_all add: match_here_Nil match_here_space)

lemma regex_search_append_spaces:
  "list_all is_space ws \<Longrightarrow> regex_search (s @ ws) = regex_search s"
proof (induction s)
  case Nil
  then show ?case by (simp add: regex_search_spaces match_here_Nil)
next
  case (Cons c cs)
  have "match_here (c # cs @ ws) = match_here (c # cs)"
    using match_here_append_spaces[OF Cons.prems, of "c # cs"] by simp
  with Cons show ?case by (simp split: option.splits)
qed

lemma regex_search_dropWhile: "regex_search (dropWhile is_space s) = regex_search s"
  by (induction s) (simp_all add: match_here_space)

lemma strip_decompose:
  "\<exists>ws. list_all is_space ws \<and> dropWhile is_space s = strip s @ ws"
proof -
  let ?t = "dropWhile is_space s"
  have "rev ?t = takeWhile is_space (rev ?t) @ dropWhile is_space (rev ?t)" by simp
  then have "?t = rev (dropWhile is_space (rev ?t)) @ rev (takeWhile is_space (rev ?t))"
    by (metis rev_append rev_rev_ident)
  moreover have "list_all is_space (rev (takeWhile is_space (rev ?t)))"
    by (simp add: list_all_iff) (meson set_takeWhileD)
  ultimately show ?thesis unfolding strip_def by blast
qed

lemma regex_search_strip: "regex_search (strip s) = regex_search s"
proof -
  obtain ws where ws: "list_all is_space ws" "dropWhile is_space s = strip s @ ws"
    using strip_decompose by blast
  have "regex_search s = regex_search (strip s @ ws)"
    using regex_search_dropWhile[of s] ws(2) by simp
  then show ?thesis by (simp add: regex_search_append_spaces[OF ws(1)])
qed

lemma filter_upt_Suc:
  "filter P [0..<Suc n] = (if P 0 then [0] else []) @ map Suc (filter (\<lambda>i. P (Suc i)) [0..<n])"
proof -
  have "[0..<Suc n] = 0 # map Suc [0..<n]"
    by (simp add: upt_conv_Cons map_Suc_upt del: upt_Suc)
  then show ?thesis by (simp add: filter_map comp_def del: upt_Suc)
qed

lemma regex_search_spec: "regex_search s = spec_first_occurrence s"
proof (induction s)
  case Nil
  then show ?case by (simp add: spec_first_occurrence_def match_here_Nil)
next
  case (Cons c cs)
  show ?case
  proof (cases "match_here (c # cs)")
    case (Some m)
    then show ?thesis
      by (simp add: spec_first_occurrence_def filter_upt_Suc del: upt_Suc)
  next
    case None
    have "spec_first_occurrence (c # cs) = spec_first_occurrence cs"
      using None
      by (simp add: spec_first_occurrence_def filter_upt_Suc del: upt_Suc split: list.splits)
    with None Cons show ?thesis by simp
  qed
qed

lemma parse_fragments_spec:
  "map (\<lambda>c. (operator_text (vc_operator c), vc_version c)) (parse_fragments fs) =
   map (\<lambda>(opr, ver). (operator_text opr, ver)) (List.map_filter spec_first_occurrence fs)"
proof (induction fs)
  case Nil
  then show ?case by (simp add: List.map_filter_simps)
next
  case (Cons f fs)
  have e: "regex_search (strip f) = spec_first_occurrence f"
    using regex_search_strip regex_search_spec by simp
  have n: "strip f = [] \<Longrightarrow> spec_first_occurrence f = None"
    using e by (simp add: match_here_Nil)
  show ?case
    using Cons e n by (auto simp: List.map_filter_simps Let_def split: option.splits)
qed


text \<open>
  Claim C9. \<open>parse_constraint_expression\<close> splits on commas and records, for each
  fragment, the first occurrence of an operator followed by a version token, skipping the
  fragments with none; \<open>parse_constraint_expression(">= 1.2.3, < 2.0")\<close> is exactly
  \<open>[(">=", "1.2.3"), ("<", "2.0")]\<close>.
\<close>

theorem parse_constraint_expression_spec:
  "map (\<lambda>c. (operator_text (vc_operator c), vc_version c)) (parse_constraint_expression expr) =
     spec_parse_constraint_list expr \<and>
   parse_constraint_expression ''>= 1.2.3, < 2.0'' =
     [\<lparr>vc_operator = Ge, vc_version = ''1.2.3''\<rparr>, \<lparr>vc_operator = Lt, vc_version = ''2.0''\<rparr>] \<and>
   map (\<lambda>c. (operator_text (vc_operator c), vc_version c))
       (parse_constraint_expression ''>= 1.2.3, < 2.0'') =
     [(''>='', ''1.2.3''), (''<'', ''2.0'')]"
proof -
  have g: "map (\<lambda>c. (operator_text (vc_operator c), vc_version c)) (parse_constraint_expression expr) =
     spec_parse_constraint_list expr"
    unfolding parse_constraint_expression_def spec_parse_constraint_list_def
    by (rule parse_fragments_spec)
  have e: "parse_constraint_expression ''>= 1.2.3, < 2.0'' =
     [\<lparr>vc_operator = Ge, vc_version = ''1.2.3''\<rparr>, \<lparr>vc_operator = Lt, vc_version = ''2.0''\<rparr>]"
    by (simp add: char_simps parse_simps)
  from g e show ?thesis by simp
qed

section \<open>Facts about sorting\<close>

lemma set_insort_lt: "set (insort_lt lt x ys) = insert x (set ys)"
  by (induction ys) auto

lemma set_py_sorted: "set (py_sorted lt xs) = set xs"
  by (induction xs) (simp_all add: set_insort_lt)

lemma py_sorted_Nil_iff: "py_sorted lt xs = [] \<longleftrightarrow> xs = []"
  using set_py_sorted[of lt xs] by (metis set_empty)

lemma sorted_insort_lt:
  assumes asym: "\<And>a b. lt a b \<Longrightarrow> \<not> lt b a"
    and trans: "\<And>a b c. \<not> lt b a \<Longrightarrow> \<not> lt c b \<Longrightarrow> \<not> lt c a"
  shows "sorted_wrt (\<lambda>a b. \<not> lt b a) ys \<Longrightarrow> sorted_wrt (\<lambda>a b. \<not> lt b a) (insort_lt lt x ys)"
proof (induction ys)
  case Nil
  then show ?case by simp
next
  case (Cons y ys)
  show ?case
  proof (cases "lt y x")
    case True
    with Cons asym show ?thesis by (auto simp: set_insort_lt)
  next
    case False
    with Cons trans show ?thesis by auto
  qed
qed

lemma sorted_py_sorted:
  assumes asym: "\<And>a b. lt a b \<Longrightarrow> \<not> lt b a"
    and trans: "\<And>a b c. \<not> lt b a \<Longrightarrow> \<not> lt c b \<Longrightarrow> \<not> lt c a"
  shows "sorted_wrt (\<lambda>a b. \<not> lt b a) (py_sorted lt xs)"
  by (induction xs) (simp_all add: sorted_insort_lt[OF asym trans])

lemma sorted_wrt_last:
  "sorted_wrt R xs \<Longrightarrow> x \<in> set xs \<Longrightarrow> x = last xs \<or> R x (last xs)"
  by (induction xs) auto

lemma py_sorted_strings_last:
  fixes xs :: "string list"
  assumes "x \<in> set xs"
  shows "x \<le> last (py_sorted (\<lambda>a b. a < b) xs)"
proof -
  have s: "sorted_wrt (\<lambda>a b. \<not> b < a) (py_sorted (\<lambda>a b. a < b) xs)"
    by (rule sorted_py_sorted) auto
  have "x \<in> set (py_sorted (\<lambda>a b. a < b) xs)" using assms by (simp add: set_py_sorted)
  from sorted_wrt_last[OF s this] show ?thesis by auto
qed


section \<open>The latest Bioconductor release\<close>

text \<open>
  Claim C8. \<open>latest_bioconductor_release\<close> returns the greatest key of the table: for
  the table of the program, with its eight releases 3.12 to 3.19, it is \<open>"3.19"\<close>,
  which is the greatest key both as a string and in the order of versions; on any table
  the result is \<open>None\<close> only for the empty table, and otherwise a key that no key
  exceeds in the order \<open>sorted\<close> uses on the keys.
\<close>

theorem latest_bioconductor_release_max:
  "latest_bioconductor_release = Some ''3.19'' \<and>
   list_all (\<lambda>k. k \<le> ''3.19'' \<and> compare_versions k ''3.19'' \<le> 0) (map fst BIOCONDUCTOR_R_MATRIX) \<and>
   (latest_release_of table = None \<longleftrightarrow> table = []) \<and>
   (\<forall>k. latest_release_of table = Some k \<longrightarrow>
        k \<in> set (map fst table) \<and> list_all (\<lambda>k'. k' \<le> k) (map fst table))"
proof -
  have a: "latest_bioconductor_release = Some ''3.19''"
    by (simp add: latest_bioconductor_release_def latest_release_of_def BIOCONDUCTOR_R_MATRIX_def)
  have b: "list_all (\<lambda>k. k \<le> ''3.19'' \<and> compare_versions k ''3.19'' \<le> 0) (map fst BIOCONDUCTOR_R_MATRIX)"
    by (simp add: BIOCONDUCTOR_R_MATRIX_def char_simps)
  have c: "latest_release_of table = None \<longleftrightarrow> table = []"
    by (simp add: latest_release_of_def)
  have d: "k \<in> set (map fst table) \<and> list_all (\<lambda>k'. k' \<le> k) (map fst table)"
    if "latest_release_of table = Some k" for k
  proof -
    from that have ne: "table \<noteq> []" and k: "k = last (py_sorted (\<lambda>a b. a < b) (map fst table))"
      by (auto simp: latest_release_of_def split: if_splits)
    have "py_sorted (\<lambda>a b. a < b) (map fst table) \<noteq> []"
      using ne by (simp add: py_sorted_Nil_iff)
    then have "k \<in> set (py_sorted (\<lambda>a b. a < b) (map fst table))"
      unfolding k by (rule last_in_set)
    then have m: "k \<in> set (map fst table)" by (simp only: set_py_sorted)
    have "list_all (\<lambda>k'. k' \<le> k) (map fst table)"
      unfolding list_all_iff k using py_sorted_strings_last by blast
    with m show ?thesis by simp
  qed
  from a b c d show ?thesis by blast
qed

theorem latest_bioconductor_release_max_witness:
  "latest_release_of BIOCONDUCTOR_R_MATRIX = Some ''3.19'' \<and>
   ''3.19'' \<in> set (map fst BIOCONDUCTOR_R_MATRIX) \<and>
   list_all (\<lambda>k'. k' \<le> ''3.19'') (map fst BIOCONDUCTOR_R_MATRIX)"
proof -
  have h: "latest_release_of BIOCONDUCTOR_R_MATRIX = Some ''3.19''"
    by (simp add: latest_release_of_def BIOCONDUCTOR_R_MATRIX_def)
  from latest_bioconductor_release_max[of BIOCONDUCTOR_R_MATRIX] h show ?thesis by blast
qed


section \<open>The normalizers on two payloads\<close>

lemmas norm_simps = is_name_char_def at_end_def dep_pattern_match_def parse_dependency_entry_def
  update_r_requirement_def split_r_requirement_def section_dependencies_def build_dependencies_def
  BASE_R_PACKAGES_def

text \<open>
  Claim C2. The claim asks for \<open>r_min = "4.0"\<close> on the single dependency entry
  \<open>R (>= 4.0, >= 3.0)\<close>. The code gives \<open>"3.0"\<close>: inside one entry the inner loop
  of \<open>_split_r_requirement\<close> keeps the last lower bound, not the greatest; only across
  entries does it compare. The entry arrives as a list item or as a mapping.
\<close>

theorem split_r_requirement_keeps_last_bound:
  "build_dependencies
     (\<lambda>k. if k = ''Depends'' then SecList [Some ''R (>= 4.0, >= 3.0)''] else SecNone) False =
     ([], Some ''3.0'') \<and>
   build_dependencies
     (\<lambda>k. if k = ''Depends'' then SecDict [(''R'', ''>= 4.0, >= 3.0'')] else SecNone) False =
     ([], Some ''3.0'') \<and>
   compare_versions ''4.0'' ''3.0'' = 1"
  by (simp add: char_simps parse_simps norm_simps)

text \<open>
  Claim C3. The claim asks that a payload with \<open>Imports: "grDevices"\<close> yields
  dependencies without \<open>grDevices\<close>. The code keeps it: the filter looks up the
  lowered name \<open>grdevices\<close> in \<open>BASE_R_PACKAGES\<close>, which holds \<open>grDevices\<close>.
\<close>

theorem build_dependencies_keeps_grDevices:
  "build_dependencies (\<lambda>k. if k = ''Imports'' then SecStr ''grDevices'' else SecNone) False =
     ([\<lparr>dep_name = ''grDevices'', dep_constraints = [], dep_kind = ''Imports'',
        dep_optional = False, dep_source_hint = None\<rparr>], None)"
  by (simp add: char_simps parse_simps norm_simps)

text \<open>
  What the filter does remove: no dependency that is kept has the lowered name \<open>r\<close>
  (so none is named \<open>R\<close>) or a lowered name in \<open>BASE_R_PACKAGES\<close>.
\<close>

lemma split_r_loop_remaining:
  "set (snd (split_r_loop deps r_requirement remaining)) \<subseteq>
     set remaining \<union> {d \<in> set deps. lower (dep_name d) \<noteq> ''r''}"
proof (induction deps arbitrary: r_requirement remaining)
  case Nil
  then show ?case by simp
next
  case (Cons dep deps)
  show ?case
  proof (cases "lower (dep_name dep) = ''r''")
    case True
    then show ?thesis using Cons.IH by (simp add: subset_iff) blast
  next
    case False
    have "set (snd (split_r_loop deps r_requirement (remaining @ [dep]))) \<subseteq>
            set (remaining @ [dep]) \<union> {d \<in> set deps. lower (dep_name d) \<noteq> ''r''}"
      by (rule Cons.IH)
    with False show ?thesis by auto
  qed
qed

lemma build_dependencies_filtered:
  assumes "d \<in> set (fst (build_dependencies get include_optional))"
  shows "lower (dep_name d) \<noteq> ''r'' \<and> lower (dep_name d) \<notin> set BASE_R_PACKAGES \<and>
         dep_name d \<noteq> ''R''"
proof -
  obtain r_min non_r where s: "split_r_requirement
      (collect_dependencies
         [(get ''Depends'', ''Depends'', False), (get ''Imports'', ''Imports'', False),
          (get ''LinkingTo'', ''LinkingTo'', False), (get ''Suggests'', ''Suggests'', True)]
         include_optional) = (r_min, non_r)"
    by (cases "split_r_requirement
      (collect_dependencies
         [(get ''Depends'', ''Depends'', False), (get ''Imports'', ''Imports'', False),
          (get ''LinkingTo'', ''LinkingTo'', False), (get ''Suggests'', ''Suggests'', True)]
         include_optional)") auto
  from assms have d: "d \<in> set non_r" "lower (dep_name d) \<notin> set BASE_R_PACKAGES"
    unfolding build_dependencies_def Let_def s by auto
  from s have "non_r = snd (split_r_loop
      (collect_dependencies
         [(get ''Depends'', ''Depends'', False), (get ''Imports'', ''Imports'', False),
          (get ''LinkingTo'', ''LinkingTo'', False), (get ''Suggests'', ''Suggests'', True)]
         include_optional) None [])"
    by (simp add: split_r_requirement_def)
  with d(1) split_r_loop_remaining have r: "lower (dep_name d) \<noteq> ''r''" by fastforce
  have "lower ''R'' = ''r''" by (simp add: char_simps)
  with r have "dep_name d \<noteq> ''R''" by auto
  with r d(2) show ?thesis by simp
qed


section \<open>The memos of the provider\<close>

lemmas provider_simps = is_linebreak_def splitlines_def flush_field_def parse_description_def
  description_get_def normalize_github_payload_def get_github_version_def new_provider_def
  sanitize_def sort_keys_def demo_descriptor_def demo_network_def truthy_def py_or_def
  str_or_default_def


text \<open>
  A key that is in the memo of CRAN or of Bioconductor is answered from the memo, with no
  change of the state and so with no fetch; a call that succeeds leaves its key in the
  memo.
\<close>

lemma get_cran_versions_memo_hit:
  "pr_cran st package = Some versions \<Longrightarrow> get_cran_versions net package st = (Inr versions, st)"
  by (simp add: get_cran_versions_def)

lemma get_cran_versions_memoizes:
  "get_cran_versions net package st = (Inr versions, st') \<Longrightarrow> pr_cran st' package = Some versions"
  by (auto simp: get_cran_versions_def memoize_cran_def Let_def split: option.splits sum.splits if_splits)

lemma load_bioc_release_memo_hit:
  "pr_bioc st release = Some release_data \<Longrightarrow> load_bioc_release net release st = (Inr release_data, st)"
  by (simp add: load_bioc_release_def)

lemma load_bioc_release_memoizes:
  "load_bioc_release net release st = (Inr release_data, st') \<Longrightarrow> pr_bioc st' release = Some release_data"
  by (auto simp: load_bioc_release_def memoize_bioc_def Let_def split: option.splits sum.splits list.splits)


text \<open>Every call of \<open>get_github_version\<close> calls the fetch function, whatever the state.\<close>

lemma get_github_version_logs_fetch:
  "pr_fetches (snd (get_github_version net owner repo ref token st)) =
     pr_fetches st @ [FetchGithub owner repo ref token]"
  by (simp add: get_github_version_def Let_def split: sum.splits)


text \<open>
  Claim C4. The claim asks that a second identical call of \<open>get_github_version\<close> fetch
  nothing. On a fresh provider, two calls for \<open>owner/demo\<close> with the same arguments
  both succeed, return the same record, and the fetch function has been called twice
  (through \<open>get_versions\<close> with the source \<open>github\<close> as well):
  the memo \<open>_github\<close> is written and never read, unlike the memos of CRAN and
  Bioconductor.
\<close>

theorem get_github_version_fetches_again:
  "(case get_github_version demo_network ''owner'' ''demo'' None None new_provider of
      (first, st1) \<Rightarrow>
        (case get_github_version demo_network ''owner'' ''demo'' None None st1 of
           (second, st2) \<Rightarrow> (isl first, isl second, first = second, pr_fetches st1, pr_fetches st2))) =
   (False, False, True,
    [FetchGithub ''owner'' ''demo'' None None],
    [FetchGithub ''owner'' ''demo'' None None, FetchGithub ''owner'' ''demo'' None None]) \<and>
   (case get_versions demo_network ''owner/demo'' ''github'' None None None new_provider of
      (first, st1) \<Rightarrow>
        (case get_versions demo_network ''owner/demo'' ''github'' None None None st1 of
           (second, st2) \<Rightarrow> (isl first, isl second, first = second, pr_fetches st1, pr_fetches st2))) =
   (False, False, True,
    [FetchGithub ''owner'' ''demo'' None None],
    [FetchGithub ''owner'' ''demo'' None None, FetchGithub ''owner'' ''demo'' None None])"
  by (simp add: provider_simps get_versions_def char_simps parse_simps norm_simps)

section \<open>Evaluating the resolver\<close>

lemmas solver_simps = md_get_versions_def load_versions_for_source_def r_min_exceeds_def
  source_order_of_def source_priority_def candidate_versions_def infer_source_def
  infer_bioc_release_def child_request_def selection_of_def py_list_repr_def cycle_error_def
  unsatisfied_error_def r_requirement_error_def no_candidates_error_def exhausted_error_def
  constraints_of_def resolve_package_body_def target_request_def initial_state_def solve_def
  truthy_def py_or_def str_or_default_def satisfies_all_def is_satisfied_by_def
  py_sorted_reverse_def rv_lt_def version_key_lt_def latest_bioconductor_release_def latest_release_of_def
  BIOCONDUCTOR_R_MATRIX_def bioconductor_r_version_def


section \<open>A target that no version satisfies\<close>


lemma keep_versions_unsatisfied:
  "constraints \<noteq> [] \<Longrightarrow> list_all (\<lambda>v. \<not> satisfies_all (pv_version v) constraints) versions \<Longrightarrow>
   keep_versions candidate_r constraints versions acc = acc"
  by (induction versions) (cases acc; simp)+

lemma gather_versions_unsatisfied:
  "constraints \<noteq> [] \<Longrightarrow>
   list_all (\<lambda>source. case load_versions_for_source solver request source of
                        Inl e \<Rightarrow> True
                      | Inr versions \<Rightarrow>
                          list_all (\<lambda>v. \<not> satisfies_all (pv_version v) constraints) versions)
     sources \<Longrightarrow>
   gather_versions solver request candidate_r constraints sources acc = acc"
  by (induction sources) (auto simp: keep_versions_unsatisfied split: sum.splits)

lemma candidate_versions_unsatisfied:
  assumes "constraints \<noteq> []"
    and "list_all (\<lambda>source. case load_versions_for_source solver request source of
                        Inl e \<Rightarrow> True
                      | Inr versions \<Rightarrow>
                          list_all (\<lambda>v. \<not> satisfies_all (pv_version v) constraints) versions)
           (source_order_of request)"
  shows "candidate_versions solver request st constraints = []"
  unfolding candidate_versions_def Let_def gather_versions_unsatisfied[OF assms]
  by (simp add: py_sorted_reverse_def)

text \<open>Constraints met earlier for the package only add to those of the request.\<close>

lemma candidate_versions_unsatisfied_more:
  assumes "constraints \<noteq> []"
    and "list_all (\<lambda>source. case load_versions_for_source solver request source of
                        Inl e \<Rightarrow> True
                      | Inr versions \<Rightarrow>
                          list_all (\<lambda>v. \<not> satisfies_all (pv_version v) constraints) versions)
           (source_order_of request)"
  shows "candidate_versions solver request st (earlier @ constraints) = []"
proof (rule candidate_versions_unsatisfied)
  show "earlier @ constraints \<noteq> []" using assms(1) by simp
  show "list_all (\<lambda>source. case load_versions_for_source solver request source of
                        Inl e \<Rightarrow> True
                      | Inr versions \<Rightarrow>
                          list_all (\<lambda>v. \<not> satisfies_all (pv_version v) (earlier @ constraints)) versions)
           (source_order_of request)"
    using assms(2) by (fastforce simp: list_all_iff satisfies_all_def split: sum.splits)
qed

lemma resolve_package_no_candidates:
  assumes "candidate_versions solver request st (constraints_of st (rq_package request) @ rq_constraints request) = []"
    and "rq_package request \<notin> st_visiting st"
    and "st_assignments st (rq_package request) = None"
  shows "resolve_package (Suc fuel) solver request st = Some (Inl (no_candidates_error request), st)"
  using assms by (simp add: resolve_package_body_def Let_def)

lemma solve_targets_append:
  "solve_targets fuel solver (before @ targets) st =
     (case solve_targets fuel solver before st of
        None \<Rightarrow> None
      | Some (Inl e, st') \<Rightarrow> Some (Inl e, st')
      | Some (Inr u, st') \<Rightarrow> solve_targets fuel solver targets st')"
  by (induction before arbitrary: st) (auto split: option.splits sum.splits)

lemma solve_target_no_candidates:
  assumes before: "solve_targets (Suc fuel) solver before (initial_state solver candidate_r) =
                     Some (Inr (), st)"
    and free: "st_assignments st (tc_package target) = None" "tc_package target \<notin> st_visiting st"
    and none: "candidate_versions solver (target_request target) st
                 (constraints_of st (tc_package target) @ tc_constraints target) = []"
  shows "solve (Suc fuel) solver (before @ target # others) candidate_r =
           Some (Inl (no_candidates_error (target_request target)))"
proof -
  have "resolve_package (Suc fuel) solver (target_request target) st =
          Some (Inl (no_candidates_error (target_request target)), st)"
    by (rule resolve_package_no_candidates)
       (use free none in \<open>simp_all add: target_request_def\<close>)
  then show ?thesis
    by (simp add: solve_def solve_targets_append before)
qed

text \<open>
  The call that builds a \<open>Conflict\<close> raises the \<open>TypeError\<close> for its keyword
  \<open>candidates\<close>, whatever the error it is given.
\<close>

lemma conflict_call_raises: "conflict_call e = Inl (TypeError ''candidates'')"
  by (simp add: conflict_call_def conflict_fields_def conflict_keywords_def)

text \<open>
  So the loop ends at the first candidate it does not skip: with the plan of that
  candidate, or with the \<open>TypeError\<close> when its solve raises a \<open>ResolutionError\<close>.
\<close>

lemma resolution_loop_first_attempt:
  "resolution_loop fuel solver targets reqs candidates conflicts =
     (case filter (\<lambda>candidate. \<not> incompatible reqs (raw candidate)) candidates of
        [] \<Rightarrow> Some (Inr (None, conflicts))
      | candidate # later \<Rightarrow>
          (case solve fuel solver targets (raw candidate) of
             None \<Rightarrow> None
           | Some (Inr plan) \<Rightarrow> Some (Inr (Some plan, conflicts))
           | Some (Inl e) \<Rightarrow> Some (Inl (TypeError ''candidates''))))"
  by (induction candidates)
     (simp_all add: conflict_call_raises split: option.splits sum.splits)

text \<open>
  With a target that no version satisfies every solve fails in the same way, so
  \<open>compute_resolution\<close> raises the \<open>TypeError\<close> at the first candidate R version
  it attempts, under every order of iteration of the sets, and with a locked R too.
\<close>

lemma unsatisfiable_target_raises:
  assumes reqs: "bioc_release_requirements targets (py_or prefer latest_bioconductor_release) [] =
                   (reqs, before @ target # others)"
    and earlier: "\<forall>candidate_r. \<exists>st.
                  solve_targets (Suc fuel)
                    \<lparr>es_metadata = md, es_include_optional = inc, es_prefer_bioc_release = prefer\<rparr>
                    before
                    (initial_state
                       \<lparr>es_metadata = md, es_include_optional = inc, es_prefer_bioc_release = prefer\<rparr>
                       candidate_r) = Some (Inr (), st) \<and>
                  st_assignments st (tc_package target) = None \<and>
                  tc_package target \<notin> st_visiting st"
    and nonempty: "tc_constraints target \<noteq> []"
    and unsat: "list_all (\<lambda>source.
                  case load_versions_for_source
                         \<lparr>es_metadata = md, es_include_optional = inc, es_prefer_bioc_release = prefer\<rparr>
                         (target_request target) source of
                    Inl e \<Rightarrow> True
                  | Inr versions \<Rightarrow>
                      list_all (\<lambda>v. \<not> satisfies_all (pv_version v) (tc_constraints target)) versions)
                (source_order_of (target_request target))"
  shows "solve (Suc fuel)
           \<lparr>es_metadata = md, es_include_optional = inc, es_prefer_bioc_release = prefer\<rparr>
           (before @ target # others) candidate_r =
           Some (Inl (no_candidates_error (target_request target)))"
    and "compute_resolution set_order (Suc fuel) md targets inc prefer None =
           (if filter (\<lambda>candidate. \<not> incompatible reqs (raw candidate))
                 (r_candidates set_order reqs) = []
            then Some (Inr (None, []))
            else Some (Inl (TypeError ''candidates'')))"
    and "truthy locked_r \<Longrightarrow>
         compute_resolution set_order (Suc fuel) md targets inc prefer locked_r =
           Some (Inl (TypeError ''candidates''))"
proof -
  let ?solver = "\<lparr>es_metadata = md, es_include_optional = inc, es_prefer_bioc_release = prefer\<rparr>"
  have c: "candidate_versions ?solver (target_request target) st
             (more_constraints @ tc_constraints target) = []" for st more_constraints
    by (rule candidate_versions_unsatisfied_more) (use nonempty unsat in simp_all)
  have s: "solve (Suc fuel) ?solver (before @ target # others) r =
             Some (Inl (no_candidates_error (target_request target)))" for r
  proof -
    from earlier obtain st where
      st: "solve_targets (Suc fuel) ?solver before (initial_state ?solver r) =
             Some (Inr (), st)"
          "st_assignments st (tc_package target) = None" "tc_package target \<notin> st_visiting st"
      by blast
    show ?thesis by (rule solve_target_no_candidates[OF st]) (rule c)
  qed
  show "solve (Suc fuel) ?solver (before @ target # others) candidate_r =
          Some (Inl (no_candidates_error (target_request target)))"
    by (rule s)
  show "compute_resolution set_order (Suc fuel) md targets inc prefer None =
           (if filter (\<lambda>candidate. \<not> incompatible reqs (raw candidate))
                 (r_candidates set_order reqs) = []
            then Some (Inr (None, []))
            else Some (Inl (TypeError ''candidates'')))"
    unfolding compute_resolution_def Let_def reqs
    by (simp add: truthy_def resolution_loop_first_attempt s split: list.splits)
  show "compute_resolution set_order (Suc fuel) md targets inc prefer locked_r =
           Some (Inl (TypeError ''candidates''))" if "truthy locked_r"
    unfolding compute_resolution_def Let_def reqs
    using that by (simp add: s conflict_call_raises)
qed

text \<open>The scenario: the target \<open>foo\<close> alone.\<close>

lemma foo_target_constraints:
  "tc_constraints foo_target = [\<lparr>vc_operator = Ge, vc_version = ''9.9''\<rparr>]"
  by (simp add: foo_target_def char_simps parse_simps)

lemma foo_requirements:
  "bioc_release_requirements [foo_target] (py_or None latest_bioconductor_release) [] =
     ([], [] @ foo_target # [])"
  by (simp add: foo_target_def)

lemma foo_first:
  "\<forall>candidate_r. \<exists>st.
      solve_targets (Suc 0)
        \<lparr>es_metadata = foo_provider, es_include_optional = False, es_prefer_bioc_release = None\<rparr>
        []
        (initial_state
           \<lparr>es_metadata = foo_provider, es_include_optional = False, es_prefer_bioc_release = None\<rparr>
           candidate_r) = Some (Inr (), st) \<and>
      st_assignments st (tc_package foo_target) = None \<and>
      tc_package foo_target \<notin> st_visiting st"
  by (simp add: initial_state_def)

lemma foo_unsatisfiable:
  "list_all (\<lambda>source.
      case load_versions_for_source
             \<lparr>es_metadata = foo_provider, es_include_optional = False, es_prefer_bioc_release = None\<rparr>
             (target_request foo_target) source of
        Inl e \<Rightarrow> True
      | Inr versions \<Rightarrow>
          list_all (\<lambda>v. \<not> satisfies_all (pv_version v) (tc_constraints foo_target)) versions)
    (source_order_of (target_request foo_target))"
  unfolding foo_target_constraints
  by (simp add: foo_target_def foo_provider_def foo_1_0_def char_simps solver_simps)

lemma supported_candidates:
  "r_candidates (\<lambda>xs. xs) [] = map RVersion SUPPORTED_R_VERSIONS"
  by (simp add: r_candidates_def SUPPORTED_R_VERSIONS_def rv_lt_def rv_eq_def char_simps)

lemma supported_attempted:
  "filter (\<lambda>candidate. \<not> incompatible [] (raw candidate)) (r_candidates (\<lambda>xs. xs) []) \<noteq> []"
  by (simp add: supported_candidates incompatible_def SUPPORTED_R_VERSIONS_def)

lemma foo_error:
  "no_candidates_error (target_request foo_target) =
     \<lparr>err_package = ''foo'', err_required_by = [''foo''],
      err_message = ''No candidate versions satisfy constraints'',
      err_candidates = Some [''(none)'']\<rparr>"
  by (simp add: no_candidates_error_def target_request_def foo_target_def)

text \<open>
  Claim C1. For the target \<open>foo >= 9.9\<close> with only \<open>foo 1.0\<close> available, the solve
  for the first candidate R version, \<open>3.6.0\<close>, raises the \<open>ResolutionError\<close> for
  \<open>foo\<close> with the candidates \<open>["(none)"]\<close>; the handler then calls \<open>Conflict\<close>
  with the keyword \<open>candidates\<close>, which the dataclass does not have, so
  \<open>compute_resolution\<close> raises a \<open>TypeError\<close>: it returns neither a null plan nor a
  \<open>Conflict\<close>, and it does not go on to the next candidate. With a locked R version
  the same happens.
\<close>

theorem unsatisfiable_target_raises_type_error:
  "hd (r_candidates (\<lambda>xs. xs) []) = RVersion ''3.6.0'' \<and>
   solve 1 (plain_solver foo_provider) [foo_target] ''3.6.0'' =
     Some (Inl \<lparr>err_package = ''foo'', err_required_by = [''foo''],
                err_message = ''No candidate versions satisfy constraints'',
                err_candidates = Some [''(none)'']\<rparr>) \<and>
   conflict_call \<lparr>err_package = ''foo'', err_required_by = [''foo''],
                  err_message = ''No candidate versions satisfy constraints'',
                  err_candidates = Some [''(none)'']\<rparr> = Inl (TypeError ''candidates'') \<and>
   compute_resolution (\<lambda>xs. xs) 1 foo_provider [foo_target] False None None =
     Some (Inl (TypeError ''candidates'')) \<and>
   compute_resolution (\<lambda>xs. xs) 1 foo_provider [foo_target] False None (Some ''4.3.0'') =
     Some (Inl (TypeError ''candidates''))"
proof -
  have n: "tc_constraints foo_target \<noteq> []" by (simp add: foo_target_constraints)
  have t: "truthy (Some ''4.3.0'')" by (simp add: truthy_def)
  note facts = unsatisfiable_target_raises[OF foo_requirements foo_first n foo_unsatisfiable]
  have h: "hd (r_candidates (\<lambda>xs. xs) []) = RVersion ''3.6.0''"
    by (simp add: supported_candidates SUPPORTED_R_VERSIONS_def)
  have s: "solve 1 (plain_solver foo_provider) [foo_target] ''3.6.0'' =
             Some (Inl \<lparr>err_package = ''foo'', err_required_by = [''foo''],
                        err_message = ''No candidate versions satisfy constraints'',
                        err_candidates = Some [''(none)'']\<rparr>)"
    using facts(1)[of "''3.6.0''"] by (simp add: plain_solver_def foo_error)
  have u: "compute_resolution (\<lambda>xs. xs) 1 foo_provider [foo_target] False None None =
             Some (Inl (TypeError ''candidates''))"
    using facts(2)[of "\<lambda>xs. xs"] supported_attempted by simp
  have l: "compute_resolution (\<lambda>xs. xs) 1 foo_provider [foo_target] False None (Some ''4.3.0'') =
             Some (Inl (TypeError ''candidates''))"
    using facts(3)[OF t, of "\<lambda>xs. xs"] by simp
  from h s conflict_call_raises u l show ?thesis by simp
qed

section \<open>An abandoned candidate\<close>


lemmas scenario_simps = cran_version_def cran_only_def cran_target_def plain_solver_def

lemma backtrack_plan:
  "\<exists>plan. solve 2 (plain_solver backtrack_provider) [cran_target ''P''] ''4.3.0'' = Some (Inr plan) \<and>
     dom (plan_selections plan) = {''P'', ''X''} \<and>
     map_option sel_version (plan_selections plan ''P'') = Some ''1.0'' \<and>
     map_option sel_dependencies (plan_selections plan ''P'') = Some [] \<and>
     map_option sel_version (plan_selections plan ''X'') = Some ''1.0'' \<and>
     map_option sel_dependencies (plan_selections plan ''X'') = Some []"
  by (simp add: backtrack_provider_def scenario_simps char_simps solver_simps eval_nat_numeral Let_def)

lemma abandoned_candidate_step:
  assumes "resolve_dependencies recur solver (selection_of candidate) request
             (sel_dependencies (selection_of candidate))
             (st\<lparr>st_assignments := (st_assignments st)(rq_package request \<mapsto> selection_of candidate),
                 st_constraints := (st_constraints st)(rq_package request \<mapsto> aggregated)\<rparr>) =
           Some (Inl e, st2)"
  shows "try_candidates recur solver request aggregated (candidate # todo) failures st =
         try_candidates recur solver request aggregated todo (failures @ [e])
           (st2\<lparr>st_assignments := (st_assignments st2)(rq_package request := None)\<rparr>)"
  using assms by (simp add: Let_def)


text \<open>
  Claim C10. When the dependencies of a tentative candidate of \<open>P\<close> raise a
  \<open>ResolutionError\<close>, the loop goes on to the next candidate from the state the failed
  attempt left, with only the assignment of \<open>P\<close> removed: the assignment of every
  other package, those made for the dependencies of the failed candidate among them,
  stays. So a plan can hold a selection no selected candidate depends on: in the scenario
  above the plan selects \<open>P 1.0\<close>, which depends on nothing, and \<open>X 1.0\<close>, which
  was selected for \<open>P 2.0\<close>.
\<close>

theorem abandoned_candidate_keeps_dependency_selections:
  assumes "resolve_dependencies recur solver (selection_of candidate) request
             (sel_dependencies (selection_of candidate))
             (st\<lparr>st_assignments := (st_assignments st)(rq_package request \<mapsto> selection_of candidate),
                 st_constraints := (st_constraints st)(rq_package request \<mapsto> aggregated)\<rparr>) =
           Some (Inl e, st2)"
  shows "try_candidates recur solver request aggregated (candidate # todo) failures st =
           try_candidates recur solver request aggregated todo (failures @ [e])
             (st2\<lparr>st_assignments := (st_assignments st2)(rq_package request := None)\<rparr>) \<and>
         (\<forall>q. q \<noteq> rq_package request \<longrightarrow>
              st_assignments
                (st2\<lparr>st_assignments := (st_assignments st2)(rq_package request := None)\<rparr>) q =
              st_assignments st2 q) \<and>
         (\<exists>plan. solve 2 (plain_solver backtrack_provider) [cran_target ''P''] ''4.3.0'' =
                    Some (Inr plan) \<and>
            dom (plan_selections plan) = {''P'', ''X''} \<and>
            map_option sel_version (plan_selections plan ''P'') = Some ''1.0'' \<and>
            map_option sel_dependencies (plan_selections plan ''P'') = Some [] \<and>
            map_option sel_version (plan_selections plan ''X'') = Some ''1.0'' \<and>
            map_option sel_dependencies (plan_selections plan ''X'') = Some [])"
  using abandoned_candidate_step[OF assms] backtrack_plan by simp

lemma backtrack_dependencies_fail:
  "resolve_dependencies (resolve_package 1 (plain_solver backtrack_provider))
     (plain_solver backtrack_provider)
     (selection_of (cran_version ''P'' ''2.0'' None [''X'', ''Y'']))
     (target_request (cran_target ''P''))
     (sel_dependencies (selection_of (cran_version ''P'' ''2.0'' None [''X'', ''Y''])))
     (backtrack_entered
        \<lparr>st_assignments := (st_assignments backtrack_entered)
            (rq_package (target_request (cran_target ''P'')) \<mapsto>
               selection_of (cran_version ''P'' ''2.0'' None [''X'', ''Y''])),
         st_constraints := (st_constraints backtrack_entered)
            (rq_package (target_request (cran_target ''P'')) \<mapsto> [])\<rparr>) =
   Some (Inl backtrack_error, backtrack_failed)"
  by (simp add: backtrack_provider_def backtrack_entered_def backtrack_failed_def
        backtrack_error_def scenario_simps char_simps solver_simps eval_nat_numeral Let_def)

theorem abandoned_candidate_witness:
  "resolve_dependencies (resolve_package 1 (plain_solver backtrack_provider))
     (plain_solver backtrack_provider)
     (selection_of (cran_version ''P'' ''2.0'' None [''X'', ''Y'']))
     (target_request (cran_target ''P''))
     (sel_dependencies (selection_of (cran_version ''P'' ''2.0'' None [''X'', ''Y''])))
     (backtrack_entered
        \<lparr>st_assignments := (st_assignments backtrack_entered)
            (rq_package (target_request (cran_target ''P'')) \<mapsto>
               selection_of (cran_version ''P'' ''2.0'' None [''X'', ''Y''])),
         st_constraints := (st_constraints backtrack_entered)
            (rq_package (target_request (cran_target ''P'')) \<mapsto> [])\<rparr>) =
   Some (Inl backtrack_error, backtrack_failed) \<and>
   try_candidates (resolve_package 1 (plain_solver backtrack_provider))
     (plain_solver backtrack_provider) (target_request (cran_target ''P'')) []
     [cran_version ''P'' ''2.0'' None [''X'', ''Y''], cran_version ''P'' ''1.0'' None []] []
     backtrack_entered =
   try_candidates (resolve_package 1 (plain_solver backtrack_provider))
     (plain_solver backtrack_provider) (target_request (cran_target ''P'')) []
     [cran_version ''P'' ''1.0'' None []] [backtrack_error]
     (backtrack_failed\<lparr>st_assignments := (st_assignments backtrack_failed)(''P'' := None)\<rparr>) \<and>
   st_assignments
     (backtrack_failed\<lparr>st_assignments := (st_assignments backtrack_failed)(''P'' := None)\<rparr>) ''X'' =
   Some (selection_of (cran_version ''X'' ''1.0'' None [])) \<and>
   st_assignments
     (backtrack_failed\<lparr>st_assignments := (st_assignments backtrack_failed)(''P'' := None)\<rparr>) ''P'' =
   None"
proof -
  have p: "rq_package (target_request (cran_target ''P'')) = ''P''"
    by (simp add: target_request_def cran_target_def)
  have x: "st_assignments backtrack_failed ''X'' = Some (selection_of (cran_version ''X'' ''1.0'' None []))"
    by (simp add: backtrack_failed_def)
  from abandoned_candidate_keeps_dependency_selections[OF backtrack_dependencies_fail,
         of "[cran_version ''P'' ''1.0'' None []]" "[]"]
       backtrack_dependencies_fail p x
  show ?thesis by simp
qed


section \<open>Two packages that depend on each other\<close>




text \<open>
  The order \<open>sorted\<close> sees between versions is asymmetric and negatively transitive,
  so the first element of a list sorted with \<open>reverse=True\<close> is one that no element
  exceeds.
\<close>


lemma compare_components_less_iff:
  "length xs \<le> n \<Longrightarrow> length ys \<le> n \<Longrightarrow>
   (compare_components xs ys < 0) = (pad_components n xs < pad_components n ys)"
  by (simp add: compare_components_pad[of xs n ys])

lemma compare_components_le_iff:
  "length xs \<le> n \<Longrightarrow> length ys \<le> n \<Longrightarrow>
   (compare_components xs ys \<le> 0) = (pad_components n xs \<le> pad_components n ys)"
  by (auto simp: compare_components_pad[of xs n ys])

lemma compare_components_asym:
  "compare_components xs ys < 0 \<Longrightarrow> \<not> compare_components ys xs < 0"
  using compare_components_less_iff[of xs "max (length xs) (length ys)" ys]
        compare_components_less_iff[of ys "max (length xs) (length ys)" xs]
  by auto

lemma compare_components_negtrans:
  assumes "\<not> compare_components ys xs < 0" "\<not> compare_components zs ys < 0"
  shows "\<not> compare_components zs xs < 0"
proof -
  let ?n = "max (length xs) (max (length ys) (length zs))"
  have "\<not> pad_components ?n ys < pad_components ?n xs"
    using assms(1) compare_components_less_iff[of ys ?n xs] by simp
  moreover have "\<not> pad_components ?n zs < pad_components ?n ys"
    using assms(2) compare_components_less_iff[of zs ?n ys] by simp
  ultimately have "\<not> pad_components ?n zs < pad_components ?n xs" by auto
  then show ?thesis using compare_components_less_iff[of zs ?n xs] by simp
qed

lemma compare_components_flip:
  "\<not> compare_components xs ys < 0 \<Longrightarrow> compare_components ys xs \<le> 0"
  using compare_components_less_iff[of xs "max (length xs) (length ys)" ys]
        compare_components_le_iff[of ys "max (length xs) (length ys)" xs]
  by auto




















section \<open>The loop over the candidate R versions\<close>


lemma limma_requirements:
  "bioc_release_requirements [limma_target] (py_or None latest_bioconductor_release) [] =
     ([(''3.17'', ''4.3'')], [limma_target])"
  by (simp add: limma_target_def solver_simps Let_def)


text \<open>
  The candidates are in ascending order of the version algebra, whatever the order of
  iteration of the sets.
\<close>

lemma rv_lt_asym: "rv_lt a b \<Longrightarrow> \<not> rv_lt b a"
  unfolding rv_lt_def rv_compare_def by (rule compare_components_asym)

lemma rv_lt_negtrans: "\<not> rv_lt b a \<Longrightarrow> \<not> rv_lt c b \<Longrightarrow> \<not> rv_lt c a"
  unfolding rv_lt_def rv_compare_def by (rule compare_components_negtrans)

lemma r_candidates_ascending:
  "sorted_wrt (\<lambda>x y. rv_compare x y \<le> 0) (r_candidates set_order reqs)"
proof -
  have "sorted_wrt (\<lambda>a b. \<not> rv_lt b a) (py_sorted rv_lt xs)" for xs
  proof (rule sorted_py_sorted)
    show "rv_lt a b \<Longrightarrow> \<not> rv_lt b a" for a b by (rule rv_lt_asym)
    show "\<not> rv_lt b a \<Longrightarrow> \<not> rv_lt c b \<Longrightarrow> \<not> rv_lt c a" for a b c
      by (rule rv_lt_negtrans)
  qed
  then have "sorted_wrt (\<lambda>x y. rv_compare x y \<le> 0) (py_sorted rv_lt xs)" for xs
    by (rule sorted_wrt_mono_rel[rotated])
       (auto simp: rv_lt_def rv_compare_def dest: compare_components_flip)
  then show ?thesis by (simp add: r_candidates_def Let_def)
qed

text \<open>
  The scenario of \<open>limma\<close> on release 3.17. The required series \<open>4.3\<close> and the
  supported \<open>4.3.0\<close> have different component tuples, so the set keeps both; they
  compare equal, so the candidates hold the same R version twice and are not strictly
  ascending, under every order of iteration.
\<close>

lemma limma_solve_any:
  "solve (Suc fuel) (plain_solver limma_provider) [limma_target] r = Some (Inr (limma_plan r))"
  by (simp add: limma_target_def limma_provider_def limma_version_def limma_plan_def
        plain_solver_def char_simps solver_simps Let_def)

lemma set_rv_set_subset: "set (rv_set xs) \<subseteq> set xs"
  by (induction xs) auto

lemma rv_set_represents: "x \<in> set xs \<Longrightarrow> \<exists>y\<in>set (rv_set xs). rv_eq y x"
proof (induction xs)
  case Nil
  then show ?case by simp
next
  case (Cons z zs)
  show ?case
  proof (cases "rv_eq z x")
    case True
    then show ?thesis by auto
  next
    case False
    with Cons.prems have "x \<in> set zs" by (auto simp: rv_eq_def)
    from Cons.IH[OF this] obtain y where y: "y \<in> set (rv_set zs)" "rv_eq y x" by blast
    with False have "\<not> rv_eq z y" by (auto simp: rv_eq_def)
    with y show ?thesis by auto
  qed
qed

lemma supported_rv_set:
  "rv_set (map RVersion SUPPORTED_R_VERSIONS) = map RVersion SUPPORTED_R_VERSIONS"
  by (simp add: SUPPORTED_R_VERSIONS_def rv_eq_def char_simps)

lemma series_not_supported:
  "list_all (\<lambda>y. \<not> rv_eq y (RVersion ''4.3'')) (map RVersion SUPPORTED_R_VERSIONS)"
  by (simp add: SUPPORTED_R_VERSIONS_def rv_eq_def char_simps)

lemma limma_candidates_set:
  assumes "\<forall>xs. set (set_order xs) = set xs"
  shows "RVersion ''4.3'' \<in> set (r_candidates set_order [(''3.17'', ''4.3'')])"
    and "set (r_candidates set_order [(''3.17'', ''4.3'')]) \<subseteq>
           set (map RVersion (SUPPORTED_R_VERSIONS @ [''4.3'']))"
proof -
  let ?A = "py_sorted rv_lt (set_order (rv_set (map RVersion SUPPORTED_R_VERSIONS)))"
  have A: "set ?A = set (map RVersion SUPPORTED_R_VERSIONS)"
    using assms by (simp add: set_py_sorted supported_rv_set)
  have c: "set (r_candidates set_order [(''3.17'', ''4.3'')]) = set (rv_set (?A @ [RVersion ''4.3'']))"
    using assms by (simp add: r_candidates_def Let_def set_py_sorted)
  have sub: "set (rv_set (?A @ [RVersion ''4.3''])) \<subseteq> set (?A @ [RVersion ''4.3''])"
    by (rule set_rv_set_subset)
  show "set (r_candidates set_order [(''3.17'', ''4.3'')]) \<subseteq>
           set (map RVersion (SUPPORTED_R_VERSIONS @ [''4.3'']))"
    unfolding c using sub A by auto
  have "RVersion ''4.3'' \<in> set (?A @ [RVersion ''4.3''])" by simp
  from rv_set_represents[OF this] obtain y where
    y: "y \<in> set (rv_set (?A @ [RVersion ''4.3'']))" "rv_eq y (RVersion ''4.3'')" by blast
  have "y \<in> set (map RVersion SUPPORTED_R_VERSIONS) \<or> y = RVersion ''4.3''"
    using y(1) sub A by auto
  with y(2) series_not_supported have "y = RVersion ''4.3''"
    by (auto simp: list_all_iff)
  with y(1) show "RVersion ''4.3'' \<in> set (r_candidates set_order [(''3.17'', ''4.3'')])"
    unfolding c by simp
qed

lemma supported_release_unique:
  "list_all (\<lambda>y. rv_eq y (RVersion ''4.3.0'') \<longrightarrow> y = RVersion ''4.3.0'')
     (map RVersion (SUPPORTED_R_VERSIONS @ [''4.3'']))"
  by (simp add: SUPPORTED_R_VERSIONS_def rv_eq_def char_simps)

lemma release_is_candidate:
  assumes "\<forall>xs. set (set_order xs) = set xs"
  shows "RVersion ''4.3.0'' \<in> set (r_candidates set_order [(''3.17'', ''4.3'')])"
proof -
  let ?A = "py_sorted rv_lt (set_order (rv_set (map RVersion SUPPORTED_R_VERSIONS)))"
  have A: "set ?A = set (map RVersion SUPPORTED_R_VERSIONS)"
    using assms by (simp add: set_py_sorted supported_rv_set)
  have c: "set (r_candidates set_order [(''3.17'', ''4.3'')]) = set (rv_set (?A @ [RVersion ''4.3'']))"
    using assms by (simp add: r_candidates_def Let_def set_py_sorted)
  have sub: "set (rv_set (?A @ [RVersion ''4.3''])) \<subseteq> set (?A @ [RVersion ''4.3''])"
    by (rule set_rv_set_subset)
  have "RVersion ''4.3.0'' \<in> set (map RVersion SUPPORTED_R_VERSIONS)"
    by (simp add: SUPPORTED_R_VERSIONS_def)
  then have "RVersion ''4.3.0'' \<in> set (?A @ [RVersion ''4.3''])" using A by simp
  from rv_set_represents[OF this] obtain y where
    y: "y \<in> set (rv_set (?A @ [RVersion ''4.3'']))" "rv_eq y (RVersion ''4.3.0'')" by blast
  have "y \<in> set (map RVersion (SUPPORTED_R_VERSIONS @ [''4.3'']))"
    using y(1) sub A by auto
  with y(2) supported_release_unique have "y = RVersion ''4.3.0''"
    unfolding list_all_iff by blast
  with y(1) show ?thesis unfolding c by simp
qed

lemma sorted_wrt_related:
  "sorted_wrt R xs \<Longrightarrow> x \<in> set xs \<Longrightarrow> y \<in> set xs \<Longrightarrow> x \<noteq> y \<Longrightarrow> R x y \<or> R y x"
  by (induction xs) auto

lemma never_strictly_ascending:
  assumes "\<forall>xs. set (set_order xs) = set xs"
  shows "\<not> sorted_wrt rv_lt (r_candidates set_order [(''3.17'', ''4.3'')])"
proof
  assume s: "sorted_wrt rv_lt (r_candidates set_order [(''3.17'', ''4.3'')])"
  have d: "RVersion ''4.3.0'' \<noteq> RVersion ''4.3''" by (simp add: RVersion_def)
  from sorted_wrt_related[OF s release_is_candidate[OF assms] limma_candidates_set(1)[OF assms] d]
  show False by (simp add: rv_lt_def char_simps)
qed

lemma candidates_identity_full:
  "r_candidates (\<lambda>xs. xs) [(''3.17'', ''4.3'')] =
     map RVersion
     [''3.6.0'', ''3.6.3'', ''4.0.0'', ''4.0.2'', ''4.0.5'', ''4.1.0'', ''4.1.2'', ''4.1.3'',
      ''4.2.0'', ''4.2.1'', ''4.2.2'', ''4.2.3'', ''4.3.0'', ''4.3'', ''4.3.1'', ''4.3.2'', ''4.3.3'',
      ''4.4.0'', ''4.4.1'']"
  by (simp add: r_candidates_def SUPPORTED_R_VERSIONS_def rv_lt_def rv_eq_def char_simps)

lemma limma_identity_order:
  "compute_resolution (\<lambda>xs. xs) 1 limma_provider [limma_target] False None None =
     Some (Inr (Some (limma_plan ''4.3.0''), []))"
  unfolding compute_resolution_def Let_def limma_requirements One_nat_def
  by (simp add: truthy_def resolution_loop_first_attempt candidates_identity_full
        incompatible_def char_simps limma_solve_any[unfolded plain_solver_def])

text \<open>
  The scenario of \<open>baz\<close>, which needs R 4.1 or later: the solve for the first
  candidate, \<open>3.6.0\<close>, raises a \<open>ResolutionError\<close>, and the solve for \<open>4.1.0\<close>
  would succeed.
\<close>

lemma baz_requirements:
  "bioc_release_requirements [cran_target ''baz''] (py_or None latest_bioconductor_release) [] =
     ([], [cran_target ''baz''])"
  by (simp add: cran_target_def)

lemma baz_too_old:
  "solve 1 (plain_solver baz_provider) [cran_target ''baz''] ''3.6.0'' =
     Some (Inl \<lparr>err_package = ''baz'', err_required_by = [''baz''],
                err_message = ''No candidate versions satisfy constraints'',
                err_candidates = Some [''(none)'']\<rparr>)"
  by (simp add: baz_provider_def scenario_simps char_simps solver_simps Let_def)

lemma baz_new_enough:
  "solve 1 (plain_solver baz_provider) [cran_target ''baz''] ''4.1.0'' =
     Some (Inr (baz_plan ''4.1.0''))"
  by (simp add: baz_provider_def baz_plan_def scenario_simps char_simps solver_simps Let_def)

lemma baz_unlocked:
  "compute_resolution (\<lambda>xs. xs) 1 baz_provider [cran_target ''baz''] False None None =
     Some (Inl (TypeError ''candidates''))"
  unfolding compute_resolution_def Let_def baz_requirements
  by (simp add: truthy_def resolution_loop_first_attempt supported_candidates
        SUPPORTED_R_VERSIONS_def incompatible_def RVersion_def
        baz_too_old[unfolded plain_solver_def One_nat_def])

text \<open>
  Claim C5. The candidate R versions are not deduplicated and not strictly ascending:
  for the single target \<open>limma\<close> on release 3.17 the table requires the series
  \<open>4.3\<close>, and the candidates hold \<open>4.3.0\<close> and then \<open>4.3\<close>, which compare equal
  (evaluated for the set iterated in the order of insertion, where the supported
  \<open>4.3.0\<close> comes before the required \<open>4.3\<close>; that both are candidates holds for
  every order). The candidates below 4.3 are skipped and the plan is that of the first candidate left,
  with the R version \<open>"4.3.0"\<close>. The plan of the first candidate whose solve succeeds
  is returned only when no attempted candidate fails before it: for \<open>baz\<close>, again
  with no locked R, the solve for \<open>3.6.0\<close> raises a \<open>ResolutionError\<close>, the handler
  raises the \<open>TypeError\<close> of the \<open>Conflict\<close> call, and the plan that the candidate
  \<open>4.1.0\<close> has is never looked for.
\<close>

theorem candidate_loop_duplicate_and_type_error:
  "fst (bioc_release_requirements [limma_target] (py_or None latest_bioconductor_release) []) =
     [(''3.17'', ''4.3'')] \<and>
   r_candidates (\<lambda>xs. xs) [(''3.17'', ''4.3'')] =
     map RVersion
     [''3.6.0'', ''3.6.3'', ''4.0.0'', ''4.0.2'', ''4.0.5'', ''4.1.0'', ''4.1.2'', ''4.1.3'',
      ''4.2.0'', ''4.2.1'', ''4.2.2'', ''4.2.3'', ''4.3.0'', ''4.3'', ''4.3.1'', ''4.3.2'', ''4.3.3'',
      ''4.4.0'', ''4.4.1''] \<and>
   compare_versions ''4.3.0'' ''4.3'' = 0 \<and>
   \<not> sorted_wrt rv_lt (r_candidates (\<lambda>xs. xs) [(''3.17'', ''4.3'')]) \<and>
   compute_resolution (\<lambda>xs. xs) 1 limma_provider [limma_target] False None None =
     Some (Inr (Some (limma_plan ''4.3.0''), [])) \<and>
   plan_r_version (limma_plan ''4.3.0'') = ''4.3.0'' \<and>
   hd (r_candidates (\<lambda>xs. xs) []) = RVersion ''3.6.0'' \<and>
   solve 1 (plain_solver baz_provider) [cran_target ''baz''] ''3.6.0'' =
     Some (Inl \<lparr>err_package = ''baz'', err_required_by = [''baz''],
                err_message = ''No candidate versions satisfy constraints'',
                err_candidates = Some [''(none)'']\<rparr>) \<and>
   solve 1 (plain_solver baz_provider) [cran_target ''baz''] ''4.1.0'' =
     Some (Inr (baz_plan ''4.1.0'')) \<and>
   compute_resolution (\<lambda>xs. xs) 1 baz_provider [cran_target ''baz''] False None None =
     Some (Inl (TypeError ''candidates''))"
proof -
  have r: "fst (bioc_release_requirements [limma_target]
                  (py_or None latest_bioconductor_release) []) = [(''3.17'', ''4.3'')]"
    unfolding limma_requirements by simp
  have e: "compare_versions ''4.3.0'' ''4.3'' = 0" by (simp add: char_simps)
  have n: "\<not> sorted_wrt rv_lt (r_candidates (\<lambda>xs. xs) [(''3.17'', ''4.3'')])"
    by (rule never_strictly_ascending) simp
  have p: "plan_r_version (limma_plan ''4.3.0'') = ''4.3.0''" by (simp add: limma_plan_def)
  have h: "hd (r_candidates (\<lambda>xs. xs) []) = RVersion ''3.6.0''"
    by (simp add: supported_candidates SUPPORTED_R_VERSIONS_def)
  from r candidates_identity_full e n limma_identity_order p h baz_too_old baz_new_enough
       baz_unlocked
  show ?thesis by blast
qed

end
